theory Spec2Isabelle
  imports Main
begin

unbundle bit_operations_syntax

section \<open>The runserver supervisor (vespalog/src/logger/runserver.cpp)\<close>

text \<open>
  A shallow embedding of \<^verbatim>\<open>runserver.cpp\<close>. The program talks to the operating system all
  the time, so every system call becomes either a lookup in an explicit picture of the world
  (\<open>os\<close>, \<open>files\<close>) or an entry of an environment record that says what the call returned;
  every call that acts on the world is also written to a trace, most recent action first.
  C \<open>int\<close> values are modelled as \<open>int\<close>; none of the arithmetic below can overflow
  except inside \<open>atoi\<close>, where the conversion is written out.
\<close>

subsection \<open>libc pieces used by the program\<close>

text \<open>\<^verbatim>\<open>fgets(buf, n, pf)\<close>: at most \<open>n - 1\<close> characters, stopping after the first newline.
  At end of file nothing is stored and the buffer keeps its old contents (\<open>None\<close>).\<close>

fun fgets_chars :: "nat \<Rightarrow> string \<Rightarrow> string" where
  "fgets_chars 0 cs = []"
| "fgets_chars (Suc n) [] = []"
| "fgets_chars (Suc n) (c # cs) = (if c = CHR 0x0A then [c] else c # fgets_chars n cs)"

definition fgets :: "nat \<Rightarrow> string \<Rightarrow> string option" where
  "fgets n content = (if content = [] then None else Some (fgets_chars (n - 1) content))"

definition isspace :: "char \<Rightarrow> bool" where
  "isspace c = (c \<in> {CHR 0x20, CHR 0x09, CHR 0x0A, CHR 0x0B, CHR 0x0C, CHR 0x0D})"

definition isdigit :: "char \<Rightarrow> bool" where
  "isdigit c = (48 \<le> (of_char c :: nat) \<and> (of_char c :: nat) \<le> 57)"

fun digits_val :: "int \<Rightarrow> string \<Rightarrow> int" where
  "digits_val acc [] = acc"
| "digits_val acc (c # cs) =
     (if isdigit c then digits_val (acc * 10 + (int (of_char c) - 48)) cs else acc)"

text \<open>\<^verbatim>\<open>strtol(s, NULL, 10)\<close> on a 64-bit \<open>long\<close>: leading white space, an optional sign, the
  longest run of digits, saturating at the ends of the range; \<^verbatim>\<open>atoi\<close> is that value cast to a
  32-bit \<open>int\<close>.\<close>

definition strtol :: "string \<Rightarrow> int" where
  "strtol s =
     (case dropWhile isspace s of
        [] \<Rightarrow> 0
      | c # cs \<Rightarrow>
          if c = CHR ''-'' then max (- (2 ^ 63)) (- digits_val 0 cs)
          else if c = CHR ''+'' then min (2 ^ 63 - 1) (digits_val 0 cs)
          else min (2 ^ 63 - 1) (digits_val 0 (c # cs)))"

definition to_int32 :: "int \<Rightarrow> int" where
  "to_int32 x = (x + 2 ^ 31) mod 2 ^ 32 - 2 ^ 31"

definition atoi :: "string \<Rightarrow> int" where
  "atoi s = to_int32 (strtol s)"

text \<open>\<^verbatim>\<open>sprintf(buf, "%d", n)\<close>.\<close>

fun dec_nat :: "nat \<Rightarrow> string" where
  "dec_nat n = (if n < 10 then [char_of (48 + n)] else dec_nat (n div 10) @ [char_of (48 + n mod 10)])"

definition dec_int :: "int \<Rightarrow> string" where
  "dec_int i = (if i < 0 then CHR ''-'' # dec_nat (nat (- i)) else dec_nat (nat i))"

subsection \<open>The world, the process state and the trace\<close>

datatype errno = EPERM | ESRCH | EOTHER

text \<open>The result of \<^verbatim>\<open>kill\<close>/\<^verbatim>\<open>killpg\<close>: 0, or -1 with \<open>errno\<close> set.\<close>

datatype sysres = Ok | Err errno

definition SIGINT :: int where "SIGINT = 2"
definition SIGKILL :: int where "SIGKILL = 9"
definition SIGTERM :: int where "SIGTERM = 15"

text \<open>A snapshot of what the operating system answers to the calls that only look at the
  world.\<close>

record os =
  getpid :: int
  kill0 :: "int \<Rightarrow> sysres"      \<comment> \<open>\<^verbatim>\<open>kill(pid, 0)\<close>\<close>
  open_fd :: "string \<Rightarrow> int"    \<comment> \<open>\<^verbatim>\<open>open(path, O_CREAT | O_WRONLY | O_NONBLOCK, 0644)\<close>\<close>
  flock_rc :: "int \<Rightarrow> int"      \<comment> \<open>\<^verbatim>\<open>flock(fd, LOCK_EX | LOCK_NB)\<close>\<close>
  write_rc :: "string \<Rightarrow> int"   \<comment> \<open>\<^verbatim>\<open>write(fd, buf, l)\<close>: bytes written\<close>

text \<open>What the program prints with \<^verbatim>\<open>fprintf\<close>, \<^verbatim>\<open>printf\<close>, \<^verbatim>\<open>perror\<close> and \<^verbatim>\<open>LOG\<close>, kept
  structured (format and arguments).\<close>

datatype msg =
    CouldNotCreatePidfile string
  | CouldNotLockPidfile string
  | CouldNotWritePid string
  | WasRunningRunning string int string
  | StopCommandProblem string
  | WasRunningSigterm string int
  | CouldNotSignal int
  | WaitingForExit
  | Dot
  | Done
  | GivingUpSendingKill
  | NotRunning string string
  | Usage string
  | CannotChdir string
  | AlreadyRunning int
  | Perror string
  | RunningWithPid string int

datatype logmsg =
    PipeFailed
  | ExecFailed string
  | ForkFailed
  | ChildStopped int
  | ChildDiedFromSignal int
  | ChildDumpedCore int
  | UnexpectedStatus int
  | WaitpidFailed
  | UnexpectedStatusForPid int int
  | WillRestartIn int
  | ExceptionMsg
  | FinalExitStatus int

datatype level = Debug | Info | Warning | Error

datatype action =
    Stdout msg
  | Stderr msg
  | Log level logmsg
  | EvStarting string int          \<comment> \<open>\<^verbatim>\<open>EV_STARTING\<close>: command and child pid\<close>
  | EvStopped int int              \<comment> \<open>\<^verbatim>\<open>EV_STOPPED\<close>: child pid and exit status\<close>
  | EvStopping int                 \<comment> \<open>\<^verbatim>\<open>EV_STOPPING\<close>, "got signal n"\<close>
  | Forwarded bool                 \<comment> \<open>lines of the child's stdout (\<open>False\<close>) or stderr (\<open>True\<close>) passed on\<close>
  | Kill int int                   \<comment> \<open>\<^verbatim>\<open>kill(pid, sig)\<close>\<close>
  | Killpg int int                 \<comment> \<open>\<^verbatim>\<open>killpg(pgrp, sig)\<close>\<close>
  | System string
  | Usleep nat
  | Sleep nat
  | Open string int
  | Flock int int
  | Fcntl int
  | Close int
  | ClosePipe bool                 \<comment> \<open>\<^verbatim>\<open>close(pstdout[0])\<close> (\<open>False\<close>) or \<^verbatim>\<open>close(pstderr[0])\<close> (\<open>True\<close>)\<close>
  | Remove string
  | Ftruncate int
  | Write int string
  | Setenv string string
  | Chdir string
  | Pipes
  | Fork int
  | Setsid
  | Sigaction int
  | IgnoreSignal int
  | Dup2 int int
  | Waitpid int int int            \<comment> \<open>\<^verbatim>\<open>waitpid(child, &wstat, WNOHANG)\<close>: child, result, status\<close>

text \<open>The three \<^verbatim>\<open>sig_atomic_t\<close> globals.\<close>

record sigstate =
  gotstopsig :: int
  lastsig :: int
  unhandledsig :: int

definition termsig :: "int \<Rightarrow> sigstate \<Rightarrow> sigstate" where
  "termsig sig s = s\<lparr>lastsig := sig, gotstopsig := 1, unhandledsig := 1\<rparr>"

text \<open>The state of one process: the files it can see (path to contents), the descriptor
  \<^verbatim>\<open>_fd\<close> of its \<^verbatim>\<open>PidFile\<close> object, the signal flags, the clock read by \<^verbatim>\<open>time(NULL)\<close>, and
  the trace.\<close>

record state =
  files :: "string \<rightharpoonup> string"
  fd :: int
  sg :: sigstate
  clock :: int
  trace :: "action list"

definition emit :: "action \<Rightarrow> state \<Rightarrow> state" where
  "emit a st = st\<lparr>trace := a # trace st\<rparr>"

text \<open>Signals handled by \<^verbatim>\<open>termsig\<close>, in the order they arrive.\<close>

definition deliver :: "int list \<Rightarrow> state \<Rightarrow> state" where
  "deliver sigs st = st\<lparr>sg := fold termsig sigs (sg st)\<rparr>"

subsection \<open>PidFile\<close>

definition readPid :: "string \<Rightarrow> state \<Rightarrow> int" where
  "readPid pidfile st =
     (case files st pidfile of
        None \<Rightarrow> 0
      | Some content \<Rightarrow> atoi (case fgets 100 content of None \<Rightarrow> ''0'' | Some buf \<Rightarrow> buf))"

definition isRunning :: "os \<Rightarrow> string \<Rightarrow> state \<Rightarrow> bool \<times> state" where
  "isRunning w pidfile st =
     (let pid = readPid pidfile st
      in if pid < 1 then (False, st)
         else (kill0 w pid = Ok \<or> kill0 w pid = Err EPERM, emit (Kill pid 0) st))"

definition isMine :: "os \<Rightarrow> string \<Rightarrow> state \<Rightarrow> bool" where
  "isMine w pidfile st = (readPid pidfile st = getpid w)"

definition close_fd :: "state \<Rightarrow> state" where
  "close_fd st = (if fd st \<ge> 0 then emit (Close (fd st)) st else st)"

definition cleanUp :: "os \<Rightarrow> string \<Rightarrow> state \<Rightarrow> state" where
  "cleanUp w pidfile st =
     (let (rm, st1) = (if isMine w pidfile st then (True, st)
                       else (let (r, st') = isRunning w pidfile st in (\<not> r, st')));
          st2 = (if rm then (emit (Remove pidfile) st1)\<lparr>files := (files st1)(pidfile := None)\<rparr>
                 else st1)
      in (close_fd st2)\<lparr>fd := -1\<rparr>)"

definition writeOpen :: "os \<Rightarrow> string \<Rightarrow> state \<Rightarrow> bool \<times> state" where
  "writeOpen w pidfile st =
     (let st1 = close_fd st;
          nfd = open_fd w pidfile;
          st2 = (emit (Open pidfile nfd) st1)\<lparr>fd := nfd\<rparr>
      in if nfd < 0 then (False, emit (Stderr (CouldNotCreatePidfile pidfile)) st2)
         else
           (let st3 = st2\<lparr>files := (case files st2 pidfile of
                                        None \<Rightarrow> (files st2)(pidfile \<mapsto> [])
                                      | Some c \<Rightarrow> files st2)\<rparr>;
                rc = flock_rc w nfd;
                st4 = emit (Flock nfd rc) st3
            in if rc \<noteq> 0
               then (False, (emit (Close nfd) (emit (Stderr (CouldNotLockPidfile pidfile)) st4))\<lparr>fd := -1\<rparr>)
               else (True, emit (Fcntl nfd) st4)))"

subsection \<open>Wait-status macros of \<^verbatim>\<open>sys/wait.h\<close> (Linux)\<close>

definition schar :: "int \<Rightarrow> int" where
  "schar x = (let y = x mod 256 in if y \<ge> 128 then y - 256 else y)"

definition WTERMSIG :: "int \<Rightarrow> int" where
  "WTERMSIG s = s AND 0x7f"

definition WEXITSTATUS :: "int \<Rightarrow> int" where
  "WEXITSTATUS s = drop_bit 8 (s AND 0xff00)"

definition WIFEXITED :: "int \<Rightarrow> bool" where
  "WIFEXITED s = (WTERMSIG s = 0)"

definition WIFSIGNALED :: "int \<Rightarrow> bool" where
  "WIFSIGNALED s = (drop_bit 1 (schar ((s AND 0x7f) + 1)) > 0)"

definition WIFSTOPPED :: "int \<Rightarrow> bool" where
  "WIFSTOPPED s = (s AND 0xff = 0x7f)"

definition WCOREDUMP :: "int \<Rightarrow> bool" where
  "WCOREDUMP s = (s AND 0x80 \<noteq> 0)"

subsection \<open>\<^verbatim>\<open>loop\<close>: one run of the child\<close>

text \<open>How the program stops: \<^verbatim>\<open>exit(n)\<close>, \<^verbatim>\<open>return n\<close> from \<^verbatim>\<open>main\<close>, \<^verbatim>\<open>abort()\<close>, a
  \<^verbatim>\<open>MsgException\<close> thrown by the log parser (caught in \<^verbatim>\<open>main\<close>), or, in the forked child,
  a successful \<^verbatim>\<open>execvp\<close>.\<close>

datatype stop = Exit int | Return int | Abort | Exception | Execed "string list"

text \<open>What a ready pipe gives: input (\<^verbatim>\<open>blockRead\<close> true, lines passed to the parser), end of
  file (\<^verbatim>\<open>blockRead\<close> false), or input on which the parser throws.\<close>

datatype rd = RdData | RdEof | RdThrow

text \<open>What the environment does during one iteration of the \<^verbatim>\<open>while\<close> loop of \<^verbatim>\<open>loop\<close>: the
  result of \<^verbatim>\<open>select\<close> and of the reads, the result of \<^verbatim>\<open>waitpid\<close>, and the signals that
  \<^verbatim>\<open>termsig\<close> handles, at the places where the order matters.\<close>

record iter_env =
  sig_select :: "int list"  \<comment> \<open>during \<^verbatim>\<open>select\<close> and the reads\<close>
  sel_n :: int              \<comment> \<open>result of \<^verbatim>\<open>select\<close>\<close>
  out_ready :: bool         \<comment> \<open>\<^verbatim>\<open>FD_ISSET(pstdout[0], &pipes)\<close>\<close>
  out_rd :: rd
  err_ready :: bool         \<comment> \<open>\<^verbatim>\<open>FD_ISSET(pstderr[0], &pipes)\<close>\<close>
  err_rd :: rd
  w_cpid :: int             \<comment> \<open>result of \<^verbatim>\<open>waitpid\<close>\<close>
  w_stat :: int             \<comment> \<open>status stored by \<^verbatim>\<open>waitpid\<close> when it returns a pid\<close>
  sig_reap :: "int list"    \<comment> \<open>after \<^verbatim>\<open>waitpid\<close>, before \<^verbatim>\<open>lastsig\<close> is compared\<close>
  sig_check :: "int list"   \<comment> \<open>before \<^verbatim>\<open>unhandledsig\<close> is tested\<close>
  sig_kill :: "int list"    \<comment> \<open>between the test and \<^verbatim>\<open>kill(child, lastsig)\<close>\<close>
  sig_clear :: "int list"   \<comment> \<open>between \<^verbatim>\<open>kill\<close> and \<^verbatim>\<open>unhandledsig = 0\<close>\<close>

text \<open>The locals of \<^verbatim>\<open>loop\<close> that the \<^verbatim>\<open>while\<close> loop changes.\<close>

record loop_st =
  child :: int
  outeof :: bool
  erreof :: bool
  wstat :: int

text \<open>Lines 224--236 and 237--249: one ready pipe. \<open>is_err\<close> tells stderr from stdout.\<close>

definition drain_one :: "bool \<Rightarrow> rd \<Rightarrow> state \<Rightarrow> stop \<times> state + bool \<times> state" where
  "drain_one is_err r st =
     (case r of
        RdData \<Rightarrow> Inr (False, emit (Forwarded is_err) st)
      | RdThrow \<Rightarrow> Inl (Exception, st)
      | RdEof \<Rightarrow> Inr (True, emit (ClosePipe is_err) st))"

text \<open>Lines 211--250. A pipe already at end of file is not in the set given to \<^verbatim>\<open>select\<close>,
  so it is never reported ready.\<close>

definition drain :: "iter_env \<Rightarrow> loop_st \<Rightarrow> state \<Rightarrow> stop \<times> state + loop_st \<times> state" where
  "drain e ls st =
     (if sel_n e > 0 then
        (case (if out_ready e \<and> \<not> outeof ls then drain_one False (out_rd e) st
               else Inr (False, st)) of
           Inl x \<Rightarrow> Inl x
         | Inr (oe, st1) \<Rightarrow>
             (case (if err_ready e \<and> \<not> erreof ls then drain_one True (err_rd e) st1
                    else Inr (False, st1)) of
                Inl x \<Rightarrow> Inl x
              | Inr (ee, st2) \<Rightarrow>
                  Inr (ls\<lparr>outeof := outeof ls \<or> oe, erreof := erreof ls \<or> ee\<rparr>, st2)))
      else Inr (ls, st))"

text \<open>Lines 264--271: the child died by a signal.\<close>

definition signaled :: "int \<Rightarrow> int \<Rightarrow> state \<Rightarrow> state" where
  "signaled cpid ws st =
     (if WTERMSIG ws \<noteq> lastsig (sg st) then
        (let st1 = emit (Log Warning (ChildDiedFromSignal (WTERMSIG ws))) st
         in if WCOREDUMP ws then emit (Log Info (ChildDumpedCore cpid)) st1 else st1)
      else st)"

text \<open>Lines 252--284.\<close>

definition reap :: "iter_env \<Rightarrow> loop_st \<Rightarrow> state \<Rightarrow> stop \<times> state + loop_st \<times> state" where
  "reap e ls st =
     (if child ls \<noteq> 0 then
        (let cpid = w_cpid e;
             ws = (if cpid > 0 then w_stat e else wstat ls);
             ls1 = ls\<lparr>wstat := ws\<rparr>;
             st1 = emit (Waitpid (child ls) cpid ws) st
         in if cpid = child ls then
              (if WIFSTOPPED ws then Inr (ls1, emit (Log Info (ChildStopped cpid)) st1)
               else if WIFEXITED ws then
                 Inr (ls1\<lparr>child := 0\<rparr>, emit (EvStopped (child ls) (WEXITSTATUS ws)) st1)
               else if WIFSIGNALED ws then
                 Inr (ls1\<lparr>child := 0\<rparr>, signaled cpid ws (deliver (sig_reap e) st1))
               else Inl (Abort, emit (Log Error (UnexpectedStatus ws)) st1))
            else if cpid < 0 then Inl (Abort, emit (Log Error WaitpidFailed) st1)
            else if cpid \<noteq> 0 then
              Inl (Abort, emit (Log Warning (UnexpectedStatusForPid ws cpid)) st1)
            else Inr (ls1, st1))
      else Inr (ls, st))"

text \<open>Lines 285--293.\<close>

definition forward :: "iter_env \<Rightarrow> loop_st \<Rightarrow> state \<Rightarrow> state" where
  "forward e ls st =
     (let st1 = deliver (sig_check e) st
      in if unhandledsig (sg st1) \<noteq> 0 \<and> child ls \<noteq> 0 then
           (let st2 = deliver (sig_kill e) st1;
                st3 = emit (Kill (child ls) (lastsig (sg st2)))
                        (emit (EvStopping (lastsig (sg st2))) st2);
                st4 = deliver (sig_clear e) st3
            in st4\<lparr>sg := (sg st4)\<lparr>unhandledsig := 0\<rparr>\<rparr>)
         else st1)"

text \<open>One iteration of the \<^verbatim>\<open>while\<close> loop, lines 211--293.\<close>

definition loop_iter :: "iter_env \<Rightarrow> loop_st \<Rightarrow> state \<Rightarrow> stop \<times> state + loop_st \<times> state" where
  "loop_iter e ls st =
     (case drain e ls (deliver (sig_select e) st) of
        Inl x \<Rightarrow> Inl x
      | Inr (ls1, st1) \<Rightarrow>
          (case reap e ls1 st1 of
             Inl x \<Rightarrow> Inl x
           | Inr (ls2, st2) \<Rightarrow> Inr (ls2, forward e ls2 st2)))"

text \<open>The \<^verbatim>\<open>while\<close> loop, line 210. It may run for ever; here it runs until the list of
  iterations the environment provides is used up, and \<open>None\<close> says it was still running.\<close>

fun loop_while ::
  "iter_env list \<Rightarrow> loop_st \<Rightarrow> state \<Rightarrow> (stop \<times> state + loop_st \<times> state) option" where
  "loop_while es ls st =
     (if child ls \<noteq> 0 \<or> \<not> outeof ls \<or> \<not> erreof ls then
        (case es of
           [] \<Rightarrow> None
         | e # es' \<Rightarrow>
             (case loop_iter e ls st of
                Inl x \<Rightarrow> Some (Inl x)
              | Inr (ls', st') \<Rightarrow> loop_while es' ls' st'))
      else Some (Inr (ls, st)))"

text \<open>What the environment does during one call of \<^verbatim>\<open>loop\<close> and the wait that follows it in
  \<^verbatim>\<open>main\<close>.\<close>

record run_env =
  pipe_ok :: bool            \<comment> \<open>both \<^verbatim>\<open>pipe\<close> calls succeed\<close>
  fork_res :: int            \<comment> \<open>result of \<^verbatim>\<open>fork\<close>\<close>
  exec_ok :: bool            \<comment> \<open>in the child: \<^verbatim>\<open>execvp\<close> succeeds\<close>
  iters :: "iter_env list"
  elapsed :: nat             \<comment> \<open>seconds the clock advances while \<^verbatim>\<open>loop\<close> runs\<close>
  sig_post :: "int list"     \<comment> \<open>signals after \<^verbatim>\<open>loop\<close> returned, before line 446\<close>
  naps :: "(nat \<times> int list) list"
                             \<comment> \<open>each \<^verbatim>\<open>sleep(1)\<close>: seconds the clock advances, signals handled\<close>
  sig_final :: "int list"    \<comment> \<open>signals before the test of line 454\<close>

text \<open>Lines 172--184: the command line and the child's pid.\<close>

definition torun :: "string list \<Rightarrow> int \<Rightarrow> string" where
  "torun run pid =
     foldl (\<lambda>s a. s @ '' '' @ a) (hd run) (tl run) @ '' (pid '' @ dec_int pid @ '')''"

text \<open>\<^verbatim>\<open>loop(svc, run)\<close>, lines 136--298. \<open>run\<close> is not empty: \<^verbatim>\<open>main\<close> calls it with
  \<^verbatim>\<open>argv + optind\<close> only when \<^verbatim>\<open>optind < argc\<close>.\<close>

definition loop :: "run_env \<Rightarrow> string list \<Rightarrow> state \<Rightarrow> (stop \<times> state + int \<times> state) option" where
  "loop r run st =
     (if \<not> pipe_ok r then Some (Inl (Exit 1, emit (Log Error PipeFailed) st))
      else
        (let st1 = emit (Fork (fork_res r)) (emit Pipes st)
         in if fork_res r = 0 then
              (if exec_ok r then Some (Inl (Execed run, st1))
               else Some (Inl (Exit 1, emit (Log Error (ExecFailed (hd run))) st1)))
            else if fork_res r < 0 then Some (Inl (Exit 1, emit (Log Error ForkFailed) st1))
            else
              (let st2 = emit (EvStarting (torun run (fork_res r)) (fork_res r)) st1
               in case loop_while (iters r)
                         \<lparr>child = fork_res r, outeof = False, erreof = False, wstat = 0\<rparr> st2 of
                    None \<Rightarrow> None
                  | Some (Inl x) \<Rightarrow> Some (Inl x)
                  | Some (Inr (ls, st3)) \<Rightarrow>
                      Some (Inr (if WIFSIGNALED (wstat ls) then WTERMSIG (wstat ls)
                                 else WEXITSTATUS (wstat ls), st3)))))"

subsection \<open>\<^verbatim>\<open>PidFile::writePid\<close>\<close>

definition writePid :: "os \<Rightarrow> string \<Rightarrow> state \<Rightarrow> stop \<times> state + state" where
  "writePid w pidfile st =
     (if fd st < 0 then Inl (Abort, st)
      else
        (let st1 = (emit (Ftruncate (fd st)) st)\<lparr>files := (files st)(pidfile \<mapsto> [])\<rparr>;
             buf = dec_int (getpid w) @ [CHR 0x0A];
             l = int (length buf);
             didw = write_rc w buf;
             st2 = (emit (Write (fd st) buf) st1)
                     \<lparr>files := (files st1)(pidfile \<mapsto> take (nat didw) buf)\<rparr>
         in if didw \<noteq> l then Inl (Exit 1, emit (Stderr (CouldNotWritePid pidfile)) st2)
            else Inr st2))"

subsection \<open>\<^verbatim>\<open>main\<close>: options\<close>

record opts =
  doStop :: bool
  restart :: int
  service :: string
  pidfile :: string
  killcmd :: "string option"

definition opts0 :: opts where
  "opts0 = \<lparr>doStop = False, restart = 0, service = ''runserver'',
            pidfile = ''vespa-runserver.pid'', killcmd = None\<rparr>"

text \<open>Lines 320--340. The argument is what the successive calls of
  \<^verbatim>\<open>getopt(argc, argv, "k:s:r:p:Sh")\<close> return, each with its \<^verbatim>\<open>optarg\<close>; \<open>Inl es\<close> is
  \<^verbatim>\<open>usage(argv[0], es)\<close>.\<close>

fun getopt_loop :: "(char \<times> string) list \<Rightarrow> opts \<Rightarrow> int + opts" where
  "getopt_loop [] opt = Inr opt"
| "getopt_loop ((ch, optarg) # nxt) opt =
     (if ch = CHR ''s'' then getopt_loop nxt (opt\<lparr>service := optarg\<rparr>)
      else if ch = CHR ''r'' then getopt_loop nxt (opt\<lparr>restart := atoi optarg\<rparr>)
      else if ch = CHR ''p'' then getopt_loop nxt (opt\<lparr>pidfile := optarg\<rparr>)
      else if ch = CHR ''S'' then getopt_loop nxt (opt\<lparr>doStop := True\<rparr>)
      else if ch = CHR ''k'' then getopt_loop nxt (opt\<lparr>killcmd := Some optarg\<rparr>)
      else Inl (if ch \<noteq> CHR ''h'' then 1 else 0))"

text \<open>Everything the environment decides during one execution of \<^verbatim>\<open>main\<close>.\<close>

record main_env =
  argv0 :: string
  getopt_res :: "(char \<times> string) list"
  operands :: "string list"        \<comment> \<open>\<^verbatim>\<open>argv + optind\<close>; empty when \<^verbatim>\<open>optind >= argc\<close>\<close>
  env_ROOT :: "string option"      \<comment> \<open>\<^verbatim>\<open>getenv("ROOT")\<close>\<close>
  vespaHome :: string              \<comment> \<open>\<^verbatim>\<open>vespa::Defaults::vespaHome()\<close>\<close>
  chdir_rc :: "string \<Rightarrow> int"
  files0 :: "string \<rightharpoonup> string"     \<comment> \<open>the files when the program starts\<close>
  time0 :: int                     \<comment> \<open>the clock when the program starts\<close>
  os_start :: os                   \<comment> \<open>the world at lines 354 and 402--408\<close>
  system_rc :: int                 \<comment> \<open>result of \<^verbatim>\<open>system(killcmd)\<close>\<close>
  killpg_term :: sysres            \<comment> \<open>result of \<^verbatim>\<open>killpg(pid, SIGTERM)\<close> at line 365\<close>
  poll :: "nat \<Rightarrow> sysres"          \<comment> \<open>result of \<^verbatim>\<open>killpg(pid, 0)\<close> at line 377, by \<open>cnt\<close>\<close>
  os_late :: os                    \<comment> \<open>the world at \<^verbatim>\<open>writePid\<close> and at the last \<^verbatim>\<open>cleanUp\<close>\<close>
  fork_rsp :: int                  \<comment> \<open>result of \<^verbatim>\<open>fork\<close> at line 413\<close>
  devnull_rd :: int                \<comment> \<open>result of \<^verbatim>\<open>open("/dev/null", O_RDONLY)\<close>\<close>
  devnull_wr :: int                \<comment> \<open>result of \<^verbatim>\<open>open("/dev/null", O_WRONLY)\<close>\<close>
  setsid_rc :: int
  runs :: "run_env list"           \<comment> \<open>one entry for each call of \<^verbatim>\<open>loop\<close>\<close>

subsection \<open>\<^verbatim>\<open>main\<close>: stop mode, lines 353--397\<close>

text \<open>The \<^verbatim>\<open>for\<close> loop of lines 372--390.\<close>

function stop_wait :: "(nat \<Rightarrow> sysres) \<Rightarrow> int \<Rightarrow> nat \<Rightarrow> state \<Rightarrow> state" where
  "stop_wait pl pid cnt st =
     (if cnt < 1800 then
        (let st1 = emit (Usleep 100000) st;
             st2 = (if cnt > 300 \<and> cnt mod 100 = 0 then emit (Killpg pid SIGTERM) st1 else st1);
             st3 = emit (Killpg pid 0) st2
         in if pl cnt = Ok then
              (let st4 = (if cnt mod 10 = 0 then emit (Stdout Dot) st3 else st3);
                   st5 = (if cnt = 900
                          then emit (Killpg pid SIGKILL) (emit (Stdout GivingUpSendingKill) st4)
                          else st4)
               in stop_wait pl pid (cnt + 1) st5)
            else emit (Stdout Done) st3)
      else st)"
  by pat_completeness auto
termination
  by (relation "measure (\<lambda>(pl, pid, cnt, st). 1800 - cnt)") auto

text \<open>Lines 355--370: the stop command, or the terminate signal.\<close>

definition stop_signal :: "main_env \<Rightarrow> opts \<Rightarrow> int \<Rightarrow> state \<Rightarrow> stop \<times> state + state" where
  "stop_signal env opt pid st =
     (case killcmd opt of
        Some cmd \<Rightarrow>
          (let st1 = emit (System cmd) (emit (Stdout (WasRunningRunning (service opt) pid cmd)) st)
           in Inr (if system_rc env \<noteq> 0 then emit (Stderr (StopCommandProblem cmd)) st1 else st1))
      | None \<Rightarrow>
          (let st1 = emit (Killpg pid SIGTERM) (emit (Stdout (WasRunningSigterm (service opt) pid)) st)
           in if killpg_term env \<noteq> Ok then Inl (Exit 1, emit (Stderr (CouldNotSignal pid)) st1)
              else Inr st1))"

definition main_stop :: "main_env \<Rightarrow> opts \<Rightarrow> state \<Rightarrow> stop \<times> state" where
  "main_stop env opt st =
     (let (running, st1) = isRunning (os_start env) (pidfile opt) st
      in if running then
           (let pid = readPid (pidfile opt) st1
            in case stop_signal env opt pid st1 of
                 Inl x \<Rightarrow> x
               | Inr st2 \<Rightarrow>
                   (Exit 0, cleanUp (os_late env) (pidfile opt)
                              (stop_wait (poll env) pid 0 (emit (Stdout WaitingForExit) st2))))
         else
           (Exit 0, cleanUp (os_late env) (pidfile opt)
                      (emit (Stdout (NotRunning (service opt) (pidfile opt))) st1)))"

subsection \<open>\<^verbatim>\<open>main\<close>: the detached supervisor, lines 414--464\<close>

text \<open>The \<^verbatim>\<open>while\<close> loop of lines 451--453.\<close>

fun nap_loop :: "int \<Rightarrow> int \<Rightarrow> (nat \<times> int list) list \<Rightarrow> state \<Rightarrow> state option" where
  "nap_loop rst laststart ns st =
     (if gotstopsig (sg st) = 0 \<and> clock st - laststart < rst then
        (case ns of
           [] \<Rightarrow> None
         | (adv, sigs) # ns' \<Rightarrow>
             nap_loop rst laststart ns'
               (deliver sigs ((emit (Sleep 1) st)\<lparr>clock := clock st + int adv\<rparr>)))
      else Some st)"

text \<open>Lines 446--450.\<close>

definition announce :: "int \<Rightarrow> int \<Rightarrow> state \<Rightarrow> state" where
  "announce rst laststart st =
     (if rst > 0 \<and> gotstopsig (sg st) = 0 then
        (let wt = rst + laststart - clock st;
             wt = (if wt < 0 then 0 else wt)
         in emit (Log Info (WillRestartIn wt)) st)
      else st)"

text \<open>The \<^verbatim>\<open>do\<close> loop of lines 443--454. It runs for ever when restarts are on and no signal
  comes; here it uses one entry of the list for each child it starts, and \<open>None\<close> says it
  was still running when the list was used up.\<close>

fun supervise ::
  "int \<Rightarrow> string list \<Rightarrow> run_env list \<Rightarrow> state \<Rightarrow> (stop \<times> state + int \<times> state) option" where
  "supervise rst run [] st = None"
| "supervise rst run (r # rs) st =
     (let laststart = clock st
      in case loop r run st of
           None \<Rightarrow> None
         | Some (Inl x) \<Rightarrow> Some (Inl x)
         | Some (Inr (stat, st1)) \<Rightarrow>
             (let st2 = deliver (sig_post r) (st1\<lparr>clock := clock st1 + int (elapsed r)\<rparr>)
              in case nap_loop rst laststart (naps r) (announce rst laststart st2) of
                   None \<Rightarrow> None
                 | Some st3 \<Rightarrow>
                     (let st4 = deliver (sig_final r) st3
                      in if gotstopsig (sg st4) = 0 \<and> rst > 0 then supervise rst run rs st4
                         else Some (Inr (stat, st4)))))"

text \<open>Lines 459--463.\<close>

definition finish :: "os \<Rightarrow> opts \<Rightarrow> int \<Rightarrow> state \<Rightarrow> stop \<times> state" where
  "finish w opt stat st =
     (Exit stat, cleanUp w (pidfile opt)
                   (if restart opt > 0 then emit (Log Debug (FinalExitStatus stat)) st else st))"

text \<open>Lines 415--438: detach from the terminal and install the handlers.\<close>

definition detach :: "main_env \<Rightarrow> state \<Rightarrow> stop \<times> state + state" where
  "detach env st =
     (let st1 = emit (Open ''/dev/null'' (devnull_rd env)) (emit (Close 0) st)
      in if devnull_rd env \<noteq> 0
         then Inl (Exit 1, emit (Stderr (Perror ''open /dev/null for reading failed'')) st1)
         else
           (let st2 = emit (Open ''/dev/null'' (devnull_wr env)) (emit (Close 1) st1)
            in if devnull_wr env \<noteq> 1
               then Inl (Exit 1, emit (Stderr (Perror ''open /dev/null for writing failed'')) st2)
               else
                 (let st3 = emit Setsid (emit (Dup2 1 2) st2)
                  in if setsid_rc env < 0 then Inl (Exit 1, emit (Stderr (Perror ''setsid'')) st3)
                     else Inr (emit (Sigaction SIGTERM) (emit (Sigaction SIGINT) st3)))))"

text \<open>Lines 414--464, the branch \<^verbatim>\<open>rsp == 0\<close>.\<close>

definition daemon :: "main_env \<Rightarrow> opts \<Rightarrow> state \<Rightarrow> (stop \<times> state) option" where
  "daemon env opt st =
     (case detach env st of
        Inl x \<Rightarrow> Some x
      | Inr st1 \<Rightarrow>
          (case writePid (os_late env) (pidfile opt) st1 of
             Inl x \<Rightarrow> Some x
           | Inr st2 \<Rightarrow>
               (case supervise (restart opt) (operands env) (runs env) st2 of
                  None \<Rightarrow> None
                | Some (Inl (how, st3)) \<Rightarrow>
                    (if how = Exception then Some (Exit 1, emit (Log Error ExceptionMsg) st3)
                     else Some (how, st3))
                | Some (Inr (stat, st3)) \<Rightarrow> Some (finish (os_late env) opt stat st3))))"

subsection \<open>\<^verbatim>\<open>main\<close>: start mode, lines 398--471\<close>

text \<open>\<^verbatim>\<open>return\<close> from \<^verbatim>\<open>main\<close> runs the destructor of \<^verbatim>\<open>mypf\<close>, which closes \<^verbatim>\<open>_fd\<close>;
  \<^verbatim>\<open>exit\<close> does not.\<close>

text \<open>Lines 413--471: \<^verbatim>\<open>fork\<close>, and what the two processes do.\<close>

definition spawn :: "main_env \<Rightarrow> opts \<Rightarrow> state \<Rightarrow> (stop \<times> state) option" where
  "spawn env opt st =
     (let st1 = emit (Fork (fork_rsp env)) st
      in if fork_rsp env = 0 then daemon env opt st1
         else if fork_rsp env < 0
         then Some (Return 1, close_fd (emit (Stderr (Perror ''fork'')) st1))
         else Some (Return 0,
                close_fd (emit (Stdout (RunningWithPid (service opt) (fork_rsp env))) st1)))"

text \<open>Lines 398--411, then \<open>spawn\<close>.\<close>

definition main_start :: "main_env \<Rightarrow> opts \<Rightarrow> state \<Rightarrow> (stop \<times> state) option" where
  "main_start env opt st =
     (if operands env = [] \<or> killcmd opt \<noteq> None
      then Some (Exit 1, emit (Stderr (Usage (argv0 env))) st)
      else
        (let (running, st1) = isRunning (os_start env) (pidfile opt) st
         in if running
            then Some (Exit 0, emit (Stderr (AlreadyRunning (readPid (pidfile opt) st1))) st1)
            else
              (let (opened, st2) = writeOpen (os_start env) (pidfile opt) st1
               in if \<not> opened
                  then Some (Return 1, close_fd (emit (Stderr (Perror (pidfile opt))) st2))
                  else spawn env opt st2)))"

subsection \<open>\<^verbatim>\<open>main\<close>\<close>

definition state0 :: "main_env \<Rightarrow> state" where
  "state0 env = \<lparr>files = files0 env, fd = -1,
                 sg = \<lparr>gotstopsig = 0, lastsig = 0, unhandledsig = 0\<rparr>,
                 clock = time0 env, trace = []\<rparr>"

text \<open>Lines 342--350.\<close>

definition enter_root :: "main_env \<Rightarrow> state \<Rightarrow> stop \<times> state + state" where
  "enter_root env st =
     (let (envROOT, st1) =
            (case env_ROOT env of
               None \<Rightarrow> (vespaHome env, emit (Setenv ''ROOT'' (vespaHome env)) st)
             | Some r \<Rightarrow> if r = [] then (vespaHome env, emit (Setenv ''ROOT'' (vespaHome env)) st)
                         else (r, st))
      in if chdir_rc env envROOT \<noteq> 0 then Inl (Exit 1, emit (Stderr (CannotChdir envROOT)) st1)
         else Inr (emit (Chdir envROOT) st1))"

definition main :: "main_env \<Rightarrow> (stop \<times> state) option" where
  "main env =
     (let st = emit (IgnoreSignal 3) (state0 env)
      in case getopt_loop (getopt_res env) opts0 of
           Inl es \<Rightarrow> Some (Exit es, emit (Stderr (Usage (argv0 env))) st)
         | Inr opt \<Rightarrow>
             (case enter_root env st of
                Inl x \<Rightarrow> Some x
              | Inr st1 \<Rightarrow>
                  if doStop opt then Some (main_stop env opt st1) else main_start env opt st1))"

text \<open>The status a parent sees when the process has ended by \<^verbatim>\<open>exit(n)\<close> or by \<^verbatim>\<open>return n\<close>
  from \<^verbatim>\<open>main\<close>: the low eight bits of \<open>n\<close>.\<close>

definition exit_status :: "stop \<Rightarrow> int option" where
  "exit_status how =
     (case how of Exit n \<Rightarrow> Some (n AND 0xff) | Return n \<Rightarrow> Some (n AND 0xff) | _ \<Rightarrow> None)"

text \<open>The recursive equations of the loops are used by hand, not by the simplifier.\<close>

declare stop_wait.simps [simp del]
declare nap_loop.simps [simp del]
declare dec_nat.simps [simp del]

subsection \<open>Notions used to state the properties\<close>




text \<open>The state in which a computation ended, whichever way it ended.\<close>

definition final :: "stop \<times> state + 'a \<times> state \<Rightarrow> state" where
  "final res = (case res of Inl p \<Rightarrow> snd p | Inr p \<Rightarrow> snd p)"

text \<open>The child's decoded outcome: its exit code if it exited normally, else the number of the
  signal that killed it. A status is terminal when it reports an exit or a death by signal
  and not a stop.\<close>

definition child_outcome :: "int \<Rightarrow> int" where
  "child_outcome w = (if WIFEXITED w then WEXITSTATUS w else WTERMSIG w)"

definition terminal :: "int \<Rightarrow> bool" where
  "terminal w = (\<not> WIFSTOPPED w \<and> (WIFEXITED w \<or> WIFSIGNALED w))"

text \<open>The status of the most recent \<^verbatim>\<open>waitpid\<close> in a trace that returned the child's pid.\<close>

definition reaped :: "action \<Rightarrow> int option" where
  "reaped a = (case a of Waitpid c p w \<Rightarrow> if p = c then Some w else None | _ \<Rightarrow> None)"

fun last_reaped :: "action list \<Rightarrow> int option" where
  "last_reaped [] = None"
| "last_reaped (a # tr) = (case reaped a of Some w \<Rightarrow> Some w | None \<Rightarrow> last_reaped tr)"

text \<open>What holds of the locals of \<^verbatim>\<open>loop\<close> between iterations: once \<^verbatim>\<open>child\<close> is 0,
  \<^verbatim>\<open>wstat\<close> is the last status reaped, and it is terminal.\<close>

definition reaped_inv :: "loop_st \<Rightarrow> state \<Rightarrow> bool" where
  "reaped_inv ls st =
     (child ls = 0 \<longrightarrow> last_reaped (trace st) = Some (wstat ls) \<and> terminal (wstat ls))"

text \<open>Counting in the trace: how often an action occurs, how many children were started, how
  many times the supervisor slept for a second.\<close>

definition count_act :: "action \<Rightarrow> state \<Rightarrow> nat" where
  "count_act a st = count_list (trace st) a"





text \<open>The number of rounds of the stop loop from round \<open>cnt\<close> on: up to and including the
  first round whose probe fails, 1800 if none does. \<open>term_due\<close> marks the rounds that send
  the terminate signal again.\<close>

definition rounds_from :: "(nat \<Rightarrow> sysres) \<Rightarrow> nat \<Rightarrow> nat" where
  "rounds_from pl cnt =
     (case find (\<lambda>k. pl k \<noteq> Ok) [cnt..<1800] of None \<Rightarrow> 1800 | Some k \<Rightarrow> Suc k)"

definition term_due :: "nat \<Rightarrow> bool" where
  "term_due c = (300 < c \<and> c mod 100 = 0)"

text \<open>One round of the stop loop, when the probe succeeds and when it fails.\<close>

definition alive_round :: "int \<Rightarrow> nat \<Rightarrow> state \<Rightarrow> state" where
  "alive_round pid cnt st =
     (let st1 = emit (Usleep 100000) st;
          st2 = (if cnt > 300 \<and> cnt mod 100 = 0 then emit (Killpg pid SIGTERM) st1 else st1);
          st3 = emit (Killpg pid 0) st2;
          st4 = (if cnt mod 10 = 0 then emit (Stdout Dot) st3 else st3)
      in if cnt = 900 then emit (Killpg pid SIGKILL) (emit (Stdout GivingUpSendingKill) st4)
         else st4)"

definition dead_round :: "int \<Rightarrow> nat \<Rightarrow> state \<Rightarrow> state" where
  "dead_round pid cnt st =
     (let st1 = emit (Usleep 100000) st;
          st2 = (if cnt > 300 \<and> cnt mod 100 = 0 then emit (Killpg pid SIGTERM) st1 else st1)
      in emit (Stdout Done) (emit (Killpg pid 0) st2))"

text \<open>Kinds of actions: those that take the lock, change the pid file or fork; those that
  send a signal or run the stop command; those that start a child.\<close>

definition locks_or_forks :: "action \<Rightarrow> bool" where
  "locks_or_forks a =
     (case a of Open p d \<Rightarrow> True | Flock d r \<Rightarrow> True | Fcntl d \<Rightarrow> True | Remove p \<Rightarrow> True
      | Ftruncate d \<Rightarrow> True | Write d b \<Rightarrow> True | Fork n \<Rightarrow> True | _ \<Rightarrow> False)"

definition sends_signal :: "action \<Rightarrow> bool" where
  "sends_signal a =
     (case a of Kill p s \<Rightarrow> s \<noteq> 0 | Killpg p s \<Rightarrow> s \<noteq> 0 | System c \<Rightarrow> True | _ \<Rightarrow> False)"

definition starts_child :: "action \<Rightarrow> bool" where
  "starts_child a = (case a of Fork n \<Rightarrow> True | EvStarting c p \<Rightarrow> True | _ \<Rightarrow> False)"

text \<open>The actions of the three kinds that the common parts of \<open>main\<close> add to the trace.\<close>

definition is_probe :: "action \<Rightarrow> bool" where
  "is_probe a = (\<exists>q. a = Kill q 0)"

definition is_setup :: "action \<Rightarrow> bool" where
  "is_setup a = ((\<exists>d. a = Chdir d) \<or> (\<exists>k v. a = Setenv k v) \<or> a = IgnoreSignal 3)"

definition is_cleanup :: "action \<Rightarrow> bool" where
  "is_cleanup a = ((\<exists>q. a = Kill q 0) \<or> (\<exists>p. a = Remove p) \<or> (\<exists>d. a = Close d))"

text \<open>Concrete inputs for the examples: a process that has just started, with the given
  files, and a world in which the given pids exist and every lock is free.\<close>

definition fresh_state :: "(string \<rightharpoonup> string) \<Rightarrow> state" where
  "fresh_state fs = \<lparr>files = fs, fd = -1,
                      sg = \<lparr>gotstopsig = 0, lastsig = 0, unhandledsig = 0\<rparr>,
                      clock = 0, trace = []\<rparr>"

definition world_with :: "int \<Rightarrow> int list \<Rightarrow> os" where
  "world_with me pids =
     \<lparr>getpid = me, kill0 = (\<lambda>p. if p \<in> set pids then Ok else Err ESRCH),
      open_fd = (\<lambda>p. 3), flock_rc = (\<lambda>d. 0), write_rc = (\<lambda>buf. int (length buf))\<rparr>"

text \<open>One iteration in which nothing happens, and one in which both pipes are at end of
  file and \<^verbatim>\<open>waitpid\<close> returns the child with the given status; a run of the child made of
  given iterations; a start of \<^verbatim>\<open>/bin/false\<close> with the pid file \<^verbatim>\<open>run.pid\<close>, seen from the
  detached process; the same start when the pid file holds the pid 4242 of a supervisor that
  has died and whose number another process now has; and a stop when the pid file holds a
  pid that no process has.\<close>

definition quiet :: iter_env where
  "quiet = \<lparr>sig_select = [], sel_n = 0, out_ready = False, out_rd = RdData,
            err_ready = False, err_rd = RdData, w_cpid = 0, w_stat = 0,
            sig_reap = [], sig_check = [], sig_kill = [], sig_clear = []\<rparr>"

definition child_ends :: "int \<Rightarrow> int \<Rightarrow> iter_env" where
  "child_ends pid ws = quiet\<lparr>sel_n := 2, out_ready := True, out_rd := RdEof,
                            err_ready := True, err_rd := RdEof, w_cpid := pid, w_stat := ws\<rparr>"

definition run_of :: "iter_env list \<Rightarrow> run_env" where
  "run_of its = \<lparr>pipe_ok = True, fork_res = 100, exec_ok = True, iters = its, elapsed = 0,
                 sig_post = [], naps = [], sig_final = []\<rparr>"

definition start_env :: main_env where
  "start_env =
     \<lparr>argv0 = ''vespa-runserver'', getopt_res = [(CHR ''p'', ''run.pid'')],
      operands = [''/bin/false''], env_ROOT = Some ''/opt/vespa'', vespaHome = ''/opt/vespa'',
      chdir_rc = (\<lambda>d. 0), files0 = Map.empty, time0 = 0, os_start = world_with 50 [50],
      system_rc = 0, killpg_term = Ok, poll = (\<lambda>k. Err ESRCH), os_late = world_with 51 [51],
      fork_rsp = 0, devnull_rd = 0, devnull_wr = 1, setsid_rc = 0,
      runs = [run_of [quiet, child_ends 100 256]]\<rparr>"

definition stale_env :: main_env where
  "stale_env = start_env\<lparr>files0 := [''run.pid'' \<mapsto> ''4242''], os_start := world_with 50 [50, 4242]\<rparr>"

definition stop_env :: main_env where
  "stop_env = start_env\<lparr>getopt_res := [(CHR ''p'', ''run.pid''), (CHR ''S'', [])],
                         operands := [], files0 := [''run.pid'' \<mapsto> ''4242''],
                         os_late := world_with 50 [50]\<rparr>"


section \<open>Properties\<close>

subsection \<open>Reading the pid file\<close>

lemma fgets_chars_numeral:
  "fgets_chars (numeral k) [] = []"
  "fgets_chars (numeral k) (c # cs) =
     (if c = CHR 0x0A then [c] else c # fgets_chars (pred_numeral k) cs)"
  by (simp_all add: numeral_eq_Suc)

lemmas eval_pid = fgets_chars_numeral dec_nat.simps isRunning_def readPid_def fgets_def atoi_def strtol_def to_int32_def isspace_def
  isdigit_def writeOpen_def close_fd_def cleanUp_def isMine_def writePid_def dec_int_def
  world_with_def fresh_state_def




























subsection \<open>Wait statuses\<close>

lemma wtermsig_range: "0 \<le> WTERMSIG s \<and> WTERMSIG s \<le> 127"
  by (simp add: WTERMSIG_def AND_upper2')

lemma wexitstatus_range: "0 \<le> WEXITSTATUS s \<and> WEXITSTATUS s \<le> 255"
proof -
  have "s AND 0xff00 \<le> 0xff00" by (rule AND_upper2') simp_all
  moreover have "0 \<le> s AND 0xff00" by simp
  ultimately have "0 \<le> (s AND 0xff00) div 256 \<and> (s AND 0xff00) div 256 \<le> 255" by linarith
  then show ?thesis by (simp add: WEXITSTATUS_def drop_bit_eq_div)
qed

lemma low_byte_id: "0 \<le> (n::int) \<Longrightarrow> n \<le> 255 \<Longrightarrow> n AND 0xff = n"
proof -
  assume a: "0 \<le> n" "n \<le> 255"
  have "n AND mask 8 = take_bit 8 n" by (simp add: take_bit_eq_mask)
  also have "\<dots> = n" using a by (simp add: take_bit_int_eq_self)
  finally show ?thesis by (simp add: mask_eq_exp_minus_1)
qed

lemma signaled_iff: "WIFSIGNALED s = (1 \<le> WTERMSIG s \<and> WTERMSIG s \<le> 126)"
proof -
  define t where "t = s AND 0x7f"
  have "0 \<le> t \<and> t \<le> 127" using wtermsig_range[of s] by (simp add: t_def WTERMSIG_def)
  then have "(0 < (let y = (t + 1) mod 256 in if 128 \<le> y then y - 256 else y) div 2) = (1 \<le> t \<and> t \<le> 126)"
    by (auto simp: Let_def)
  then show ?thesis
    by (simp add: WIFSIGNALED_def WTERMSIG_def schar_def drop_bit_eq_div t_def)
qed

lemma signaled_not_exited: "WIFSIGNALED s \<Longrightarrow> \<not> WIFEXITED s"
  by (simp add: signaled_iff WIFEXITED_def)

lemma stopped_termsig: "WIFSTOPPED s \<Longrightarrow> WTERMSIG s = 127"
proof -
  assume "WIFSTOPPED s"
  then have "s AND 0xff = 0x7f" by (simp add: WIFSTOPPED_def)
  then have "(s AND 0xff) AND 0x7f = 0x7f AND (0x7f::int)" by simp
  then show ?thesis by (simp add: WTERMSIG_def and.assoc)
qed

lemma signaled_not_stopped: "WIFSIGNALED s \<Longrightarrow> \<not> WIFSTOPPED s"
  using stopped_termsig[of s] by (auto simp: signaled_iff)




lemma trace_deliver: "trace (deliver sigs st) = trace st"
  by (simp add: deliver_def)

lemma final_simps [simp]: "final (Inl (x, st)) = st" "final (Inr (y, st)) = st"
  by (simp_all add: final_def)











subsection \<open>The last status reaped\<close>

lemma last_reaped_emit:
  "reaped a = None \<Longrightarrow> last_reaped (trace (emit a st)) = last_reaped (trace st)"
  by (simp add: emit_def)

lemma trace_emit: "trace (emit a st) = a # trace st"
  by (simp add: emit_def)

lemma inv_drain: "reaped_inv ls st \<Longrightarrow> drain e ls st = Inr (ls', st') \<Longrightarrow> reaped_inv ls' st'"
  by (auto simp: reaped_inv_def drain_def drain_one_def trace_emit reaped_def split: if_splits rd.splits)

lemma trace_signaled: "last_reaped (trace (signaled c w st)) = last_reaped (trace st)"
  by (simp add: signaled_def Let_def trace_emit reaped_def)

lemma inv_reap: "reaped_inv ls st \<Longrightarrow> child ls \<ge> 0 \<Longrightarrow> reap e ls st = Inr (ls', st') \<Longrightarrow> reaped_inv ls' st' \<and> child ls' \<ge> 0"
  by (auto simp: reaped_inv_def reap_def Let_def trace_emit reaped_def trace_signaled trace_deliver terminal_def
        split: if_splits)

lemma inv_forward: "reaped_inv ls st \<Longrightarrow> reaped_inv ls (forward e ls st)"
  by (simp add: reaped_inv_def forward_def Let_def trace_deliver)

lemma child_drain: "drain e ls st = Inr (ls', st') \<Longrightarrow> child ls' = child ls"
  by (auto simp: drain_def drain_one_def split: if_splits rd.splits)

lemma inv_iter:
  assumes "reaped_inv ls st" "child ls \<ge> 0" "loop_iter e ls st = Inr (ls', st')"
  shows "reaped_inv ls' st' \<and> child ls' \<ge> 0"
proof -
  have i0: "reaped_inv ls (deliver (sig_select e) st)" using assms(1) by (simp add: reaped_inv_def trace_deliver)
  from assms(3) obtain ls1 st1 where d: "drain e ls (deliver (sig_select e) st) = Inr (ls1, st1)"
    by (auto simp: loop_iter_def split: sum.splits)
  from assms(3) d obtain st2 where r: "reap e ls1 st1 = Inr (ls', st2)" and f: "st' = forward e ls' st2"
    by (auto simp: loop_iter_def split: sum.splits)
  from inv_drain[OF i0 d] child_drain[OF d] assms(2) have "reaped_inv ls1 st1" "child ls1 \<ge> 0" by simp_all
  from inv_reap[OF this r] f inv_forward show ?thesis by simp
qed

lemma inv_while:
  "reaped_inv ls st \<Longrightarrow> child ls \<ge> 0 \<Longrightarrow> loop_while es ls st = Some (Inr (ls', st')) \<Longrightarrow> reaped_inv ls' st' \<and> child ls' = 0"
proof (induction es arbitrary: ls st)
  case Nil
  then show ?case by (auto split: if_splits)
next
  case (Cons e es)
  show ?case
  proof (cases "child ls \<noteq> 0 \<or> \<not> outeof ls \<or> \<not> erreof ls")
    case False
    with Cons.prems show ?thesis by auto
  next
    case True
    with Cons.prems(3) obtain ls1 st1 where it: "loop_iter e ls st = Inr (ls1, st1)"
      and w: "loop_while es ls1 st1 = Some (Inr (ls', st'))"
      by (auto split: sum.splits)
    from inv_iter[OF Cons.prems(1,2) it] Cons.IH[OF _ _ w] show ?thesis by simp
  qed
qed

lemma terminal_outcome:
  "terminal w \<Longrightarrow> (if WIFSIGNALED w then WTERMSIG w else WEXITSTATUS w) = child_outcome w"
  using signaled_not_exited[of w] by (auto simp: terminal_def child_outcome_def)

lemma loop_outcome:
  assumes "loop r run st = Some (Inr (stat, st'))"
  shows "\<exists>w. last_reaped (trace st') = Some w \<and> terminal w \<and> stat = child_outcome w"
proof -
  let ?st2 = "emit (EvStarting (torun run (fork_res r)) (fork_res r)) (emit (Fork (fork_res r)) (emit Pipes st))"
  let ?ls = "\<lparr>child = fork_res r, outeof = False, erreof = False, wstat = 0\<rparr>"
  from assms have pos: "fork_res r > 0" by (auto simp: loop_def Let_def split: if_splits)
  from assms obtain ls where w: "loop_while (iters r) ?ls ?st2 = Some (Inr (ls, st'))"
    and st: "stat = (if WIFSIGNALED (wstat ls) then WTERMSIG (wstat ls) else WEXITSTATUS (wstat ls))"
    by (auto simp: loop_def Let_def split: if_splits option.splits sum.splits)
  have "reaped_inv ?ls ?st2" using pos by (simp add: reaped_inv_def)
  from inv_while[OF this _ w] pos have "reaped_inv ls st'" "child ls = 0" by simp_all
  then show ?thesis using st terminal_outcome[of "wstat ls"] by (auto simp: reaped_inv_def)
qed

lemma last_reaped_nap:
  "nap_loop rst l ns st = Some st' \<Longrightarrow> last_reaped (trace st') = last_reaped (trace st)"
proof (induction ns arbitrary: st)
  case Nil
  then show ?case by (auto simp: nap_loop.simps split: if_splits)
next
  case (Cons n ns)
  obtain adv sigs where n: "n = (adv, sigs)" by (cases n)
  show ?case
  proof (cases "gotstopsig (sg st) = 0 \<and> clock st - l < rst")
    case False
    with Cons.prems show ?thesis by (auto simp: nap_loop.simps)
  next
    case True
    with Cons.prems n
    have "nap_loop rst l ns (deliver sigs ((emit (Sleep 1) st)\<lparr>clock := clock st + int adv\<rparr>)) =
          Some st'"
      by (subst (asm) nap_loop.simps) simp
    from Cons.IH[OF this] show ?thesis by (simp add: trace_deliver trace_emit reaped_def)
  qed
qed

lemma last_reaped_announce: "last_reaped (trace (announce rst l st)) = last_reaped (trace st)"
  by (simp add: announce_def Let_def trace_emit reaped_def)

lemma supervise_outcome:
  "supervise rst run rs st = Some (Inr (stat, st')) \<Longrightarrow>
     \<exists>w. last_reaped (trace st') = Some w \<and> terminal w \<and> stat = child_outcome w"
proof (induction rs arbitrary: st)
  case Nil
  then show ?case by simp
next
  case (Cons r rs)
  from Cons.prems obtain lres where l: "loop r run st = Some lres"
    by (cases "loop r run st") (auto simp: Let_def)
  with Cons.prems obtain stat1 st1 where lr: "lres = Inr (stat1, st1)"
    by (cases lres) (auto simp: Let_def)
  let ?st2 = "announce rst (clock st) (deliver (sig_post r) (st1\<lparr>clock := clock st1 + int (elapsed r)\<rparr>))"
  from Cons.prems l lr obtain st3 where n: "nap_loop rst (clock st) (naps r) ?st2 = Some st3"
    by (auto simp: Let_def split: option.splits)
  let ?st4 = "deliver (sig_final r) st3"
  have tr4: "last_reaped (trace ?st4) = last_reaped (trace st1)"
    using last_reaped_nap[OF n] by (simp add: trace_deliver last_reaped_announce)
  show ?case
  proof (cases "gotstopsig (sg ?st4) = 0 \<and> rst > 0")
    case True
    with Cons.prems l lr n have "supervise rst run rs ?st4 = Some (Inr (stat, st'))"
      by (simp add: Let_def)
    from Cons.IH[OF this] show ?thesis .
  next
    case False
    with Cons.prems l lr n have "stat = stat1" "st' = ?st4" by (auto simp: Let_def)
    with loop_outcome[of r run st stat1 st1] l lr tr4 show ?thesis by simp
  qed
qed

subsection \<open>Clock, starts and sleeps\<close>

















subsection \<open>The stop loop\<close>

lemma rounds_from_step:
  "cnt < 1800 \<Longrightarrow> rounds_from pl cnt = (if pl cnt = Ok then rounds_from pl (Suc cnt) else Suc cnt)"
  by (simp add: rounds_from_def upt_conv_Cons)

lemma rounds_from_end: "rounds_from pl 1800 = 1800"
  by (simp add: rounds_from_def)

lemma rounds_from_bounds: "cnt \<le> 1800 \<Longrightarrow> cnt \<le> rounds_from pl cnt \<and> rounds_from pl cnt \<le> 1800"
  by (auto simp: rounds_from_def find_Some_iff split: option.splits)

lemma rounds_from_gt: "cnt < 1800 \<Longrightarrow> cnt < rounds_from pl cnt"
  using rounds_from_bounds[of "Suc cnt" pl] by (simp add: rounds_from_step)

lemma stop_wait_step:
  "cnt < 1800 \<Longrightarrow> stop_wait pl pid cnt st =
     (if pl cnt = Ok then stop_wait pl pid (Suc cnt) (alive_round pid cnt st) else dead_round pid cnt st)"
  by (subst stop_wait.simps) (simp add: alive_round_def dead_round_def Let_def)

lemma stop_wait_end: "\<not> cnt < 1800 \<Longrightarrow> stop_wait pl pid cnt st = st"
  by (subst stop_wait.simps) simp

lemma count_emit: "count_act a (emit b st) = count_act a st + (if b = a then 1 else 0)"
  by (simp add: count_act_def emit_def)

lemma count_alive:
  "count_act (Usleep 100000) (alive_round pid cnt st) = count_act (Usleep 100000) st + 1"
  "count_act (Killpg pid 0) (alive_round pid cnt st) = count_act (Killpg pid 0) st + 1"
  "count_act (Killpg pid SIGTERM) (alive_round pid cnt st) = count_act (Killpg pid SIGTERM) st + (if term_due cnt then 1 else 0)"
  "count_act (Killpg pid SIGKILL) (alive_round pid cnt st) = count_act (Killpg pid SIGKILL) st + (if cnt = 900 then 1 else 0)"
  "count_act (Stdout Done) (alive_round pid cnt st) = count_act (Stdout Done) st"
  by (simp_all add: alive_round_def Let_def count_emit SIGTERM_def SIGKILL_def term_due_def)

lemma count_dead:
  "count_act (Usleep 100000) (dead_round pid cnt st) = count_act (Usleep 100000) st + 1"
  "count_act (Killpg pid 0) (dead_round pid cnt st) = count_act (Killpg pid 0) st + 1"
  "count_act (Killpg pid SIGTERM) (dead_round pid cnt st) = count_act (Killpg pid SIGTERM) st + (if term_due cnt then 1 else 0)"
  "count_act (Killpg pid SIGKILL) (dead_round pid cnt st) = count_act (Killpg pid SIGKILL) st"
  "count_act (Stdout Done) (dead_round pid cnt st) = count_act (Stdout Done) st + 1"
  by (simp_all add: dead_round_def Let_def count_emit SIGTERM_def SIGKILL_def term_due_def)


lemma countdown_induct [consumes 1, case_names base step]:
  assumes le: "cnt \<le> 1800"
    and base: "\<And>st. P 1800 st"
    and step: "\<And>cnt st. cnt < 1800 \<Longrightarrow> (\<And>st'. P (Suc cnt) st') \<Longrightarrow> P cnt st"
  shows "P cnt (st::state)"
  using le
proof (induction "1800 - cnt" arbitrary: cnt st)
  case 0
  then have "cnt = 1800" by simp
  then show ?case using base by simp
next
  case (Suc n)
  then have lt: "cnt < 1800" by simp
  have "P (Suc cnt) st'" for st'
    using Suc.hyps(1)[of "Suc cnt" st'] Suc.hyps(2) lt by simp
  with step[OF lt] show ?case by simp
qed

lemma count_usleep:
  "cnt \<le> 1800 \<Longrightarrow>
   count_act (Usleep 100000) (stop_wait pl pid cnt st) =
     count_act (Usleep 100000) st + (rounds_from pl cnt - cnt)"
proof (induction cnt st rule: countdown_induct)
  case (base st)
  show ?case by (simp add: stop_wait_end rounds_from_end)
next
  case (step cnt st)
  from rounds_from_bounds[of "Suc cnt" pl] step(1) have "Suc cnt \<le> rounds_from pl (Suc cnt)" by simp
  with step show ?case
    by (simp add: stop_wait_step rounds_from_step count_alive count_dead)
qed

lemma count_probe:
  "cnt \<le> 1800 \<Longrightarrow>
   count_act (Killpg pid 0) (stop_wait pl pid cnt st) =
     count_act (Killpg pid 0) st + (rounds_from pl cnt - cnt)"
proof (induction cnt st rule: countdown_induct)
  case (base st)
  show ?case by (simp add: stop_wait_end rounds_from_end)
next
  case (step cnt st)
  from rounds_from_bounds[of "Suc cnt" pl] step(1) have "Suc cnt \<le> rounds_from pl (Suc cnt)" by simp
  with step show ?case
    by (simp add: stop_wait_step rounds_from_step count_alive count_dead)
qed

lemma count_term:
  "cnt \<le> 1800 \<Longrightarrow>
   count_act (Killpg pid SIGTERM) (stop_wait pl pid cnt st) =
     count_act (Killpg pid SIGTERM) st + length (filter term_due [cnt..<rounds_from pl cnt])"
proof (induction cnt st rule: countdown_induct)
  case (base st)
  show ?case by (simp add: stop_wait_end rounds_from_end)
next
  case (step cnt st)
  from rounds_from_bounds[of "Suc cnt" pl] step(1) have "Suc cnt \<le> rounds_from pl (Suc cnt)" by simp
  then have "[cnt..<rounds_from pl (Suc cnt)] = cnt # [Suc cnt..<rounds_from pl (Suc cnt)]"
    by (simp add: upt_conv_Cons)
  with step show ?case
    by (simp add: stop_wait_step rounds_from_step count_alive count_dead)
qed

lemma count_kill:
  "cnt \<le> 1800 \<Longrightarrow>
   count_act (Killpg pid SIGKILL) (stop_wait pl pid cnt st) =
     count_act (Killpg pid SIGKILL) st + (if cnt \<le> 900 \<and> 901 < rounds_from pl cnt then 1 else 0)"
proof (induction cnt st rule: countdown_induct)
  case (base st)
  show ?case by (simp add: stop_wait_end rounds_from_end)
next
  case (step cnt st)
  from rounds_from_bounds[of "Suc cnt" pl] step(1) have ge: "Suc cnt \<le> rounds_from pl (Suc cnt)" by simp
  show ?case
  proof (cases "pl cnt = Ok")
    case False
    with step(1) show ?thesis by (simp add: stop_wait_step rounds_from_step count_dead)
  next
    case True
    have "count_act (Killpg pid SIGKILL) (stop_wait pl pid cnt st) =
          count_act (Killpg pid SIGKILL) (alive_round pid cnt st) +
            (if Suc cnt \<le> 900 \<and> 901 < rounds_from pl (Suc cnt) then 1 else 0)"
      using True step by (simp add: stop_wait_step)
    also have "\<dots> = count_act (Killpg pid SIGKILL) st + (if cnt = 900 then 1 else 0) +
            (if Suc cnt \<le> 900 \<and> 901 < rounds_from pl (Suc cnt) then 1 else 0)"
      by (simp only: count_alive)
    also have "\<dots> = count_act (Killpg pid SIGKILL) st +
            (if cnt \<le> 900 \<and> 901 < rounds_from pl (Suc cnt) then 1 else 0)"
      using ge rounds_from_gt[of "Suc cnt" pl] by auto
    finally show ?thesis using True step(1) by (simp add: rounds_from_step)
  qed
qed

lemma find_never: "find (\<lambda>k. False) xs = None"
  by (induction xs) simp_all

lemma never_dies: "rounds_from (\<lambda>k. Ok) 0 = 1800"
  unfolding rounds_from_def by (simp only: find_never option.case simp_thms)

subsection \<open>\<^verbatim>\<open>main\<close>, step by step\<close>

lemma enter_root_start:
  assumes "enter_root env (emit (IgnoreSignal 3) (state0 env)) = Inr st1"
  shows "files st1 = files0 env \<and> fd st1 = -1 \<and> (\<forall>a\<in>set (trace st1). is_setup a)"
  using assms
  by (cases "env_ROOT env")
     (auto simp: enter_root_def emit_def state0_def is_setup_def Let_def split: if_splits)

lemma main_unfold:
  assumes "getopt_loop (getopt_res env) opts0 = Inr opt"
    and "enter_root env (emit (IgnoreSignal 3) (state0 env)) = Inr st1"
  shows "main env = (if doStop opt then Some (main_stop env opt st1) else main_start env opt st1)"
  using assms by (simp add: main_def)

lemma isRunning_keeps:
  "files (snd (isRunning w p st)) = files st \<and> fd (snd (isRunning w p st)) = fd st \<and>
   sg (snd (isRunning w p st)) = sg st \<and>
   readPid p (snd (isRunning w p st)) = readPid p st"
  by (simp add: isRunning_def Let_def emit_def readPid_def)

lemma isRunning_trace:
  "\<exists>pp. trace (snd (isRunning w p st)) = pp @ trace st \<and> (\<forall>a\<in>set pp. is_probe a)"
  by (simp add: isRunning_def Let_def emit_def is_probe_def)

lemma cleanUp_trace:
  "\<exists>pre. trace (cleanUp w p st) = pre @ trace st \<and> (\<forall>a\<in>set pre. is_cleanup a)"
  by (auto simp: cleanUp_def isRunning_def isMine_def close_fd_def Let_def emit_def is_cleanup_def)

lemma cleanUp_fd: "fd (cleanUp w p st) = -1"
  by (simp add: cleanUp_def Let_def case_prod_beta)

lemma cleanUp_removes:
  "\<not> fst (isRunning w p st) \<Longrightarrow> files (cleanUp w p st) p = None"
  by (simp add: cleanUp_def Let_def case_prod_beta close_fd_def emit_def)


lemma main_start_running:
  assumes "operands env \<noteq> []" and "killcmd opt = None"
    and "fst (isRunning (os_start env) (pidfile opt) st)"
  shows "main_start env opt st =
     Some (Exit 0, emit (Stderr (AlreadyRunning (readPid (pidfile opt) st)))
                     (snd (isRunning (os_start env) (pidfile opt) st)))"
  using assms isRunning_keeps[of "os_start env" "pidfile opt" st]
  by (simp add: main_start_def case_prod_beta)



lemma main_stop_idle:
  "\<not> fst (isRunning (os_start env) (pidfile opt) st) \<Longrightarrow>
     main_stop env opt st =
       (Exit 0, cleanUp (os_late env) (pidfile opt)
                  (emit (Stdout (NotRunning (service opt) (pidfile opt)))
                     (snd (isRunning (os_start env) (pidfile opt) st))))"
  by (simp add: main_stop_def case_prod_beta)

lemma kinds_disjoint:
  "is_setup a \<Longrightarrow> \<not> locks_or_forks a \<and> \<not> sends_signal a \<and> \<not> starts_child a"
  "is_probe a \<Longrightarrow> \<not> locks_or_forks a \<and> \<not> sends_signal a \<and> \<not> starts_child a"
  "is_cleanup a \<Longrightarrow> \<not> sends_signal a \<and> \<not> starts_child a"
  by (auto simp: is_setup_def is_probe_def is_cleanup_def locks_or_forks_def sends_signal_def
        starts_child_def)

text \<open>
  C10. A start (all options accepted, no \<^verbatim>\<open>-S\<close>, no \<^verbatim>\<open>-k\<close>, a command given, the root
  directory entered) made while \<^verbatim>\<open>isRunning\<close> holds of the pid file: the program exits with
  status 0; the last thing it does is print the pid read from the file on standard error;
  the files are what they were when the program started and no descriptor is held; and the
  trace has no \<^verbatim>\<open>open\<close>, \<^verbatim>\<open>flock\<close>, \<^verbatim>\<open>fcntl\<close>, \<^verbatim>\<open>ftruncate\<close>, \<^verbatim>\<open>write\<close>, \<^verbatim>\<open>remove\<close> and
  no \<^verbatim>\<open>fork\<close>.
\<close>

theorem start_already_running:
  assumes "getopt_loop (getopt_res env) opts0 = Inr opt" and "\<not> doStop opt"
    and "operands env \<noteq> []" and "killcmd opt = None"
    and "enter_root env (emit (IgnoreSignal 3) (state0 env)) = Inr st1"
    and "fst (isRunning (os_start env) (pidfile opt) st1)"
  shows "\<exists>st'. main env = Some (Exit 0, st') \<and>
           hd (trace st') = Stderr (AlreadyRunning (readPid (pidfile opt) st1)) \<and>
           files st' = files0 env \<and> fd st' = -1 \<and>
           (\<forall>a \<in> set (trace st'). \<not> locks_or_forks a)"
proof -
  let ?st2 = "snd (isRunning (os_start env) (pidfile opt) st1)"
  let ?msg = "Stderr (AlreadyRunning (readPid (pidfile opt) st1))"
  have m: "main env = Some (Exit 0, emit ?msg ?st2)"
    using main_unfold[OF assms(1,5)] assms(2) main_start_running[OF assms(3,4,6)] by simp
  note root = enter_root_start[OF assms(5)]
  note keep = isRunning_keeps[of "os_start env" "pidfile opt" st1]
  from isRunning_trace[of "os_start env" "pidfile opt" st1] obtain pp where
    pp: "trace ?st2 = pp @ trace st1" "\<forall>a\<in>set pp. is_probe a" by blast
  have tr: "trace (emit ?msg ?st2) = ?msg # pp @ trace st1"
    using pp(1) by (simp add: emit_def)
  have "\<not> locks_or_forks ?msg" by (simp add: locks_or_forks_def)
  then have "\<forall>a \<in> set (trace (emit ?msg ?st2)). \<not> locks_or_forks a"
    unfolding tr using pp(2) root kinds_disjoint(1,2) by auto
  moreover have "files (emit ?msg ?st2) = files0 env" "fd (emit ?msg ?st2) = -1"
    using root keep by (simp_all add: emit_def)
  moreover have "hd (trace (emit ?msg ?st2)) = ?msg" by (simp add: tr)
  ultimately show ?thesis using m by blast
qed

text \<open>
  C9. A stop (all options accepted, \<^verbatim>\<open>-S\<close> given, the root directory entered) made while
  \<^verbatim>\<open>isRunning\<close> does not hold of the pid file: the program exits with status 0 (line 397);
  it has printed the \<open>not running\<close> message on standard output; no action of the trace sends
  a signal or runs the stop command (the only \<^verbatim>\<open>kill\<close> calls are probes with signal 0); and
  the final state is the one \<^verbatim>\<open>cleanUp\<close> leaves: no descriptor held, and the pid file
  removed when the probe of \<^verbatim>\<open>cleanUp\<close> answers as the first one did.
\<close>

theorem stop_not_running:
  assumes "getopt_loop (getopt_res env) opts0 = Inr opt" and "doStop opt"
    and "enter_root env (emit (IgnoreSignal 3) (state0 env)) = Inr st1"
    and "\<not> fst (isRunning (os_start env) (pidfile opt) st1)"
  shows "\<exists>st'. main env = Some (Exit 0, st') \<and>
           st' = cleanUp (os_late env) (pidfile opt)
                   (emit (Stdout (NotRunning (service opt) (pidfile opt)))
                      (snd (isRunning (os_start env) (pidfile opt) st1))) \<and>
           Stdout (NotRunning (service opt) (pidfile opt)) \<in> set (trace st') \<and>
           (\<forall>a \<in> set (trace st'). \<not> sends_signal a) \<and> fd st' = -1 \<and>
           (kill0 (os_late env) = kill0 (os_start env) \<longrightarrow> files st' (pidfile opt) = None)"
proof -
  let ?msg = "Stdout (NotRunning (service opt) (pidfile opt))"
  let ?st2 = "snd (isRunning (os_start env) (pidfile opt) st1)"
  let ?st3 = "emit ?msg ?st2"
  let ?st' = "cleanUp (os_late env) (pidfile opt) ?st3"
  have m: "main env = Some (Exit 0, ?st')"
    using main_unfold[OF assms(1,3)] assms(2) main_stop_idle[OF assms(4)] by simp
  note root = enter_root_start[OF assms(3)]
  note keep = isRunning_keeps[of "os_start env" "pidfile opt" st1]
  from isRunning_trace[of "os_start env" "pidfile opt" st1] obtain pp where
    pp: "trace ?st2 = pp @ trace st1" "\<forall>a\<in>set pp. is_probe a" by blast
  from cleanUp_trace[of "os_late env" "pidfile opt" ?st3] obtain post where
    post: "trace ?st' = post @ trace ?st3" "\<forall>a\<in>set post. is_cleanup a" by blast
  have tr: "trace ?st' = post @ ?msg # pp @ trace st1"
    using post(1) pp(1) by (simp add: emit_def)
  have "\<not> sends_signal ?msg" by (simp add: sends_signal_def)
  then have "\<forall>a \<in> set (trace ?st'). \<not> sends_signal a"
    unfolding tr using pp(2) post(2) root kinds_disjoint by auto
  moreover have "?msg \<in> set (trace ?st')" by (simp add: tr)
  moreover have "files ?st' (pidfile opt) = None" if k: "kill0 (os_late env) = kill0 (os_start env)"
  proof -
    have "fst (isRunning (os_late env) (pidfile opt) ?st3) =
          fst (isRunning (os_start env) (pidfile opt) st1)"
      using k keep by (simp add: isRunning_def Let_def readPid_def emit_def)
    with assms(4) show ?thesis by (simp add: cleanUp_removes)
  qed
  ultimately show ?thesis using m cleanUp_fd by blast
qed

lemmas eval_loop = supervise.simps loop_def loop_while.simps loop_iter_def drain_def drain_one_def
  reap_def forward_def signaled_def deliver_def emit_def announce_def nap_loop.simps quiet_def
  child_ends_def run_of_def Let_def termsig_def
  WIFSTOPPED_def WIFEXITED_def WIFSIGNALED_def WTERMSIG_def WEXITSTATUS_def WCOREDUMP_def schar_def

lemmas eval_main = main_def main_start_def main_stop_def spawn_def daemon_def detach_def
  enter_root_def state0_def finish_def stop_signal_def opts0_def start_env_def stale_env_def
  SIGTERM_def SIGINT_def SIGKILL_def


theorem start_already_running_witness:
  "\<exists>st'. main stale_env = Some (Exit 0, st') \<and>
      hd (trace st') = Stderr (AlreadyRunning 4242) \<and>
      files st' = files0 stale_env \<and> fd st' = -1 \<and>
      (\<forall>a \<in> set (trace st'). \<not> locks_or_forks a)"
proof -
  let ?opt = "opts0\<lparr>pidfile := ''run.pid''\<rparr>"
  let ?st1 = "emit (Chdir ''/opt/vespa'') (emit (IgnoreSignal 3) (state0 stale_env))"
  have 1: "getopt_loop (getopt_res stale_env) opts0 = Inr ?opt"
    by (simp add: eval_main)
  have 2: "\<not> doStop ?opt" "operands stale_env \<noteq> []" "killcmd ?opt = None"
    by (simp_all add: eval_main)
  have 3: "enter_root stale_env (emit (IgnoreSignal 3) (state0 stale_env)) = Inr ?st1"
    by (simp add: eval_main)
  have 4: "fst (isRunning (os_start stale_env) (pidfile ?opt) ?st1)"
    by (simp add: eval_main eval_pid emit_def)
  have 5: "readPid (pidfile ?opt) ?st1 = 4242"
    by (simp add: eval_main eval_pid emit_def)
  from start_already_running[OF 1 2 3 4] show ?thesis by (simp only: 5)
qed

lemmas eval_main2 = eval_main stop_env_def

theorem stop_not_running_witness:
  "\<exists>st'. main stop_env = Some (Exit 0, st') \<and>
      Stdout (NotRunning ''runserver'' ''run.pid'') \<in> set (trace st') \<and>
      (\<forall>a \<in> set (trace st'). \<not> sends_signal a) \<and> fd st' = -1 \<and>
      files st' ''run.pid'' = None"
proof -
  let ?opt = "opts0\<lparr>pidfile := ''run.pid'', doStop := True\<rparr>"
  let ?st1 = "emit (Chdir ''/opt/vespa'') (emit (IgnoreSignal 3) (state0 stop_env))"
  have 1: "getopt_loop (getopt_res stop_env) opts0 = Inr ?opt"
    by (simp add: eval_main2)
  have 2: "doStop ?opt" by simp
  have 3: "enter_root stop_env (emit (IgnoreSignal 3) (state0 stop_env)) = Inr ?st1"
    by (simp add: eval_main2)
  have 4: "\<not> fst (isRunning (os_start stop_env) (pidfile ?opt) ?st1)"
    by (simp add: eval_main2 eval_pid emit_def)
  have 5: "kill0 (os_late stop_env) = kill0 (os_start stop_env)"
    by (simp add: eval_main2 world_with_def)
  have 6: "service ?opt = ''runserver''" "pidfile ?opt = ''run.pid''"
    by (simp_all add: opts0_def)
  from stop_not_running[OF 1 2 3 4] 5 show ?thesis unfolding 6 by blast
qed




lemma main_stop_running:
  "fst (isRunning (os_start env) (pidfile opt) st) \<Longrightarrow>
     main_stop env opt st =
       (let st1 = snd (isRunning (os_start env) (pidfile opt) st);
            pid = readPid (pidfile opt) st1
        in case stop_signal env opt pid st1 of
             Inl x \<Rightarrow> x
           | Inr st2 \<Rightarrow>
               (Exit 0, cleanUp (os_late env) (pidfile opt)
                          (stop_wait (poll env) pid 0 (emit (Stdout WaitingForExit) st2))))"
  by (simp add: main_stop_def case_prod_beta Let_def)








subsection \<open>The schedule of the stop loop\<close>

lemma rounds_first_dead:
  assumes "k < 1800" "pl k \<noteq> Ok" "\<forall>j<k. pl j = Ok"
  shows "rounds_from pl 0 = Suc k"
proof -
  have "find (\<lambda>k. pl k \<noteq> Ok) [0..<1800] = Some k"
    using assms by (auto simp: find_Some_iff intro!: exI[of _ k])
  then show ?thesis by (simp only: rounds_from_def option.case)
qed

lemma rounds_all_alive:
  assumes "\<forall>k<1800. pl k = Ok"
  shows "rounds_from pl 0 = 1800"
proof -
  have "find (\<lambda>k. pl k \<noteq> Ok) [0..<1800] = None"
    using assms by (auto simp: find_None_iff)
  then show ?thesis by (simp only: rounds_from_def option.case)
qed

lemma main_stop_loop:
  assumes "getopt_loop (getopt_res env) opts0 = Inr opt" and "doStop opt"
    and "enter_root env (emit (IgnoreSignal 3) (state0 env)) = Inr st1"
    and "fst (isRunning (os_start env) (pidfile opt) st1)"
    and "stop_signal env opt (readPid (pidfile opt) st1)
           (snd (isRunning (os_start env) (pidfile opt) st1)) = Inr st2"
  shows "main env = Some (Exit 0, cleanUp (os_late env) (pidfile opt)
           (stop_wait (poll env) (readPid (pidfile opt) st1) 0 (emit (Stdout WaitingForExit) st2)))"
proof -
  have r: "readPid (pidfile opt) (snd (isRunning (os_start env) (pidfile opt) st1)) =
           readPid (pidfile opt) st1"
    using isRunning_keeps[of "os_start env" "pidfile opt" st1] by simp
  have "main env = Some (main_stop env opt st1)"
    using main_unfold[OF assms(1,3)] assms(2) by simp
  also have "main_stop env opt st1 = (Exit 0, cleanUp (os_late env) (pidfile opt)
           (stop_wait (poll env) (readPid (pidfile opt) st1) 0 (emit (Stdout WaitingForExit) st2)))"
    using main_stop_running[OF assms(4)] assms(5) by (simp add: Let_def r)
  finally show ?thesis .
qed

text \<open>
  C3, as the code has it. A stop (all options accepted, \<^verbatim>\<open>-S\<close> given, the root directory
  entered) against a pid file whose process is running, once the stop command has been run
  or the terminate signal sent, runs the stop loop from round 0, then \<^verbatim>\<open>cleanUp\<close>, and exits
  with status 0. The stop loop makes at most 1800 rounds of 100 ms, that is up to
  180 seconds, each round one \<^verbatim>\<open>usleep(100000)\<close> and one probe \<^verbatim>\<open>killpg(pid, 0)\<close>. It ends
  with the first round whose probe fails, and runs all 1800 rounds when none fails. The
  terminate signal is sent again in the rounds \<open>cnt > 300\<close> with \<open>cnt mod 100 = 0\<close> that are
  reached (every 10 seconds from the 40th second on). The kill signal is sent once, after
  the probe of round 900 (the 90th second) has succeeded, and never otherwise.
\<close>

theorem stop_wait_schedule:
  "(\<forall>opt st1 st2.
      getopt_loop (getopt_res env) opts0 = Inr opt \<and> doStop opt \<and>
      enter_root env (emit (IgnoreSignal 3) (state0 env)) = Inr st1 \<and>
      fst (isRunning (os_start env) (pidfile opt) st1) \<and>
      stop_signal env opt (readPid (pidfile opt) st1)
        (snd (isRunning (os_start env) (pidfile opt) st1)) = Inr st2 \<longrightarrow>
      main env = Some (Exit 0, cleanUp (os_late env) (pidfile opt)
                   (stop_wait (poll env) (readPid (pidfile opt) st1) 0
                      (emit (Stdout WaitingForExit) st2)))) \<and>
   rounds_from pl 0 \<le> 1800 \<and>
   count_act (Usleep 100000) (stop_wait pl pid 0 st) =
     count_act (Usleep 100000) st + rounds_from pl 0 \<and>
   count_act (Killpg pid 0) (stop_wait pl pid 0 st) =
     count_act (Killpg pid 0) st + rounds_from pl 0 \<and>
   (\<forall>k<1800. pl k \<noteq> Ok \<and> (\<forall>j<k. pl j = Ok) \<longrightarrow> rounds_from pl 0 = Suc k) \<and>
   ((\<forall>k<1800. pl k = Ok) \<longrightarrow> rounds_from pl 0 = 1800) \<and>
   count_act (Killpg pid SIGTERM) (stop_wait pl pid 0 st) =
     count_act (Killpg pid SIGTERM) st + length (filter term_due [0..<rounds_from pl 0]) \<and>
   count_act (Killpg pid SIGKILL) (stop_wait pl pid 0 st) =
     count_act (Killpg pid SIGKILL) st + (if 901 < rounds_from pl 0 then 1 else 0)"
proof -
  have m: "\<forall>opt st1 st2.
      getopt_loop (getopt_res env) opts0 = Inr opt \<and> doStop opt \<and>
      enter_root env (emit (IgnoreSignal 3) (state0 env)) = Inr st1 \<and>
      fst (isRunning (os_start env) (pidfile opt) st1) \<and>
      stop_signal env opt (readPid (pidfile opt) st1)
        (snd (isRunning (os_start env) (pidfile opt) st1)) = Inr st2 \<longrightarrow>
      main env = Some (Exit 0, cleanUp (os_late env) (pidfile opt)
                   (stop_wait (poll env) (readPid (pidfile opt) st1) 0
                      (emit (Stdout WaitingForExit) st2)))"
    using main_stop_loop[of env] by blast
  have "rounds_from pl 0 \<le> 1800 \<and>
   count_act (Usleep 100000) (stop_wait pl pid 0 st) =
     count_act (Usleep 100000) st + rounds_from pl 0 \<and>
   count_act (Killpg pid 0) (stop_wait pl pid 0 st) =
     count_act (Killpg pid 0) st + rounds_from pl 0 \<and>
   (\<forall>k<1800. pl k \<noteq> Ok \<and> (\<forall>j<k. pl j = Ok) \<longrightarrow> rounds_from pl 0 = Suc k) \<and>
   ((\<forall>k<1800. pl k = Ok) \<longrightarrow> rounds_from pl 0 = 1800) \<and>
   count_act (Killpg pid SIGTERM) (stop_wait pl pid 0 st) =
     count_act (Killpg pid SIGTERM) st + length (filter term_due [0..<rounds_from pl 0]) \<and>
   count_act (Killpg pid SIGKILL) (stop_wait pl pid 0 st) =
     count_act (Killpg pid SIGKILL) st + (if 901 < rounds_from pl 0 then 1 else 0)"
    using rounds_from_bounds[of 0 pl] count_usleep[of 0 pl pid st] count_probe[of 0 pid pl st]
      count_term[of 0 pid pl st] count_kill[of 0 pid pl st] rounds_first_dead[of _ pl]
      rounds_all_alive[of pl]
    by simp
  with m show ?thesis by (rule conjI)
qed

lemma term_due_multiple:
  assumes "x < 1800" "300 < x" "x mod 100 = 0"
  shows "x \<in> (\<lambda>i. 100 * i) ` {4..<18::nat}"
proof -
  from assms(3) obtain q where q: "x = 100 * q" by (auto simp: mod_eq_0_iff_dvd)
  with assms(1,2) have "4 \<le> q" "q < 18" by simp_all
  with q show ?thesis by auto
qed

lemma term_due_set: "{i. i < 1800 \<and> term_due i} = (\<lambda>i. 100 * i) ` {4..<18}"
  using term_due_multiple by (auto simp: term_due_def)

lemma length_filter_upt: "length (filter P [0..<n]) = card {i. i < n \<and> P i}"
  by (simp add: length_filter_conv_card cong: conj_cong)

lemma term_due_count: "length (filter term_due [0..<1800]) = 14"
proof -
  have "length (filter term_due [0..<1800]) = card {i. i < 1800 \<and> term_due i}"
    by (rule length_filter_upt)
  also have "\<dots> = card {4..<18::nat}"
    unfolding term_due_set by (rule card_image) (simp add: inj_on_def)
  finally show ?thesis by simp
qed

text \<open>
  C3 as stated fails: against a process group that never dies the loop sleeps more than
  600 times 100 ms, so it polls for more than 60 seconds.
\<close>

theorem stop_wait_runs_180s:
  "\<not> count_act (Usleep 100000) (stop_wait (\<lambda>k. Ok) 4242 0 (fresh_state Map.empty)) \<le> 600"
  using count_usleep[of 0 "\<lambda>k. Ok" 4242 "fresh_state Map.empty"] never_dies
  by simp

theorem stop_wait_schedule_witness:
  "count_act (Usleep 100000)
     (stop_wait (\<lambda>k. if k < 5 then Ok else Err ESRCH) 4242 0 (fresh_state Map.empty)) = 6 \<and>
   count_act (Killpg 4242 SIGKILL)
     (stop_wait (\<lambda>k. if k < 5 then Ok else Err ESRCH) 4242 0 (fresh_state Map.empty)) = 0 \<and>
   count_act (Usleep 100000) (stop_wait (\<lambda>k. Ok) 4242 0 (fresh_state Map.empty)) = 1800 \<and>
   count_act (Killpg 4242 SIGTERM) (stop_wait (\<lambda>k. Ok) 4242 0 (fresh_state Map.empty)) = 14 \<and>
   count_act (Killpg 4242 SIGKILL) (stop_wait (\<lambda>k. Ok) 4242 0 (fresh_state Map.empty)) = 1 \<and>
   map_option fst (main (stop_env\<lparr>os_start := world_with 50 [50, 4242],
                                   poll := (\<lambda>k. if k < 5 then Ok else Err ESRCH)\<rparr>)) =
     Some (Exit 0) \<and>
   map_option (count_act (Usleep 100000) \<circ> snd)
     (main (stop_env\<lparr>os_start := world_with 50 [50, 4242],
                      poll := (\<lambda>k. if k < 5 then Ok else Err ESRCH)\<rparr>)) = Some 6"
proof -
  let ?pl = "\<lambda>k::nat. if k < 5 then Ok else Err ESRCH"
  let ?live = "stop_env\<lparr>os_start := world_with 50 [50, 4242], poll := ?pl\<rparr>"
  let ?opt = "opts0\<lparr>pidfile := ''run.pid'', doStop := True\<rparr>"
  let ?st1 = "emit (Chdir ''/opt/vespa'') (emit (IgnoreSignal 3) (state0 ?live))"
  have m1: "getopt_loop (getopt_res ?live) opts0 = Inr ?opt \<and> doStop ?opt \<and>
      enter_root ?live (emit (IgnoreSignal 3) (state0 ?live)) = Inr ?st1 \<and>
      fst (isRunning (os_start ?live) (pidfile ?opt) ?st1)"
    by (simp add: eval_main2 eval_pid emit_def)
  have "\<exists>st2. stop_signal ?live ?opt (readPid (pidfile ?opt) ?st1)
        (snd (isRunning (os_start ?live) (pidfile ?opt) ?st1)) = Inr st2"
    by (simp add: eval_main2 eval_pid emit_def)
  then obtain st2 where m2: "stop_signal ?live ?opt (readPid (pidfile ?opt) ?st1)
        (snd (isRunning (os_start ?live) (pidfile ?opt) ?st1)) = Inr st2"
    by blast
  from m1 m2 stop_wait_schedule[where env = ?live, THEN conjunct1, rule_format, of ?opt ?st1 st2]
  have live: "map_option fst (main ?live) = Some (Exit 0)" by simp
  have sleeps6: "map_option (count_act (Usleep 100000) \<circ> snd) (main ?live) = Some 6"
    by (simp add: eval_main2 eval_pid emit_def stop_wait.simps count_act_def)
  have a: "(5::nat) < 1800 \<and> ?pl 5 \<noteq> Ok \<and> (\<forall>j<5. ?pl j = Ok)" by simp
  have b: "\<forall>k<1800. (\<lambda>k::nat. Ok) k = Ok" by simp
  have z: "count_act a (fresh_state Map.empty) = 0" for a
    by (simp add: count_act_def fresh_state_def)
  note D = stop_wait_schedule[where pl = ?pl and pid = 4242 and st = "fresh_state Map.empty",
             THEN conjunct2]
  note A = stop_wait_schedule[where pl = "\<lambda>k. Ok" and pid = 4242 and st = "fresh_state Map.empty",
             THEN conjunct2]
  note c2 = conjunct2
  from a D[THEN c2, THEN c2, THEN c2, THEN conjunct1, rule_format, of 5]
  have r6: "rounds_from ?pl 0 = 6" by simp
  from b A[THEN c2, THEN c2, THEN c2, THEN c2, THEN conjunct1, rule_format]
  have r1800: "rounds_from (\<lambda>k. Ok) 0 = 1800" by simp
  have "count_act (Usleep 100000) (stop_wait ?pl 4242 0 (fresh_state Map.empty)) = 6"
    using D[THEN c2, THEN conjunct1] by (simp only: r6 z)
  moreover have "count_act (Killpg 4242 SIGKILL) (stop_wait ?pl 4242 0 (fresh_state Map.empty)) = 0"
    using D[THEN c2, THEN c2, THEN c2, THEN c2, THEN c2, THEN c2] by (simp add: r6 z)
  moreover have "count_act (Usleep 100000) (stop_wait (\<lambda>k. Ok) 4242 0 (fresh_state Map.empty)) = 1800"
    using A[THEN c2, THEN conjunct1] by (simp only: r1800 z)
  moreover have "count_act (Killpg 4242 SIGTERM) (stop_wait (\<lambda>k. Ok) 4242 0 (fresh_state Map.empty)) = 14"
    using A[THEN c2, THEN c2, THEN c2, THEN c2, THEN c2, THEN conjunct1]
    by (simp only: r1800 z term_due_count)
  moreover have "count_act (Killpg 4242 SIGKILL) (stop_wait (\<lambda>k. Ok) 4242 0 (fresh_state Map.empty)) = 1"
    using A[THEN c2, THEN c2, THEN c2, THEN c2, THEN c2, THEN c2] by (simp add: r1800 z)
  ultimately show ?thesis using live sleeps6 by blast
qed



lemma reaped_cleanup: "is_cleanup a \<Longrightarrow> reaped a = None"
  by (auto simp: is_cleanup_def reaped_def)

lemma last_reaped_skip: "\<forall>a\<in>set pre. reaped a = None \<Longrightarrow> last_reaped (pre @ tr) = last_reaped tr"
  by (induction pre) simp_all

lemma last_reaped_cleanUp: "last_reaped (trace (cleanUp w p st)) = last_reaped (trace st)"
proof -
  from cleanUp_trace[of w p st] obtain pre where
    p: "trace (cleanUp w p st) = pre @ trace st" "\<forall>a\<in>set pre. is_cleanup a" by blast
  from p(2) have "\<forall>a\<in>set pre. reaped a = None" using reaped_cleanup by blast
  with p(1) show ?thesis by (simp add: last_reaped_skip)
qed

text \<open>
  C1. When the detached process has detached and written its pid, and the restart loop of
  lines 443--454 ends normally, the process ends by \<^verbatim>\<open>exit\<close> with the decoded outcome of
  the last status that \<^verbatim>\<open>waitpid\<close> returned for the child: that status reports an exit or
  a death by signal, the outcome is the exit code in the first case and the signal number
  in the second, and it is what the parent of the supervisor sees as exit status.
\<close>

theorem supervisor_exit_status:
  assumes "detach env st = Inr st1"
    and "writePid (os_late env) (pidfile opt) st1 = Inr st2"
    and "supervise (restart opt) (operands env) (runs env) st2 = Some (Inr (stat, st3))"
  shows "\<exists>w st'. daemon env opt st = Some (Exit (child_outcome w), st') \<and>
           last_reaped (trace st') = Some w \<and> terminal w \<and>
           exit_status (Exit (child_outcome w)) = Some (child_outcome w)"
proof -
  from supervise_outcome[OF assms(3)] obtain w where
    w: "last_reaped (trace st3) = Some w" "terminal w" "stat = child_outcome w"
    by blast
  have "0 \<le> child_outcome w \<and> child_outcome w \<le> 255"
    using wtermsig_range[of w] wexitstatus_range[of w] by (auto simp: child_outcome_def)
  then have low: "child_outcome w AND 0xff = child_outcome w" by (simp add: low_byte_id)
  have d: "daemon env opt st = Some (finish (os_late env) opt stat st3)"
    using assms by (simp add: daemon_def)
  have "last_reaped (trace (snd (finish (os_late env) opt stat st3))) = Some w"
    using w(1) by (simp add: finish_def last_reaped_cleanUp emit_def reaped_def)
  with d w low show ?thesis by (auto simp: finish_def exit_status_def)
qed

theorem supervisor_exit_status_witness:
  "map_option fst (daemon start_env (opts0\<lparr>pidfile := ''run.pid''\<rparr>)
                    ((fresh_state Map.empty)\<lparr>fd := 3\<rparr>)) = Some (Exit 1) \<and>
   (\<exists>w st'. daemon start_env (opts0\<lparr>pidfile := ''run.pid''\<rparr>)
               ((fresh_state Map.empty)\<lparr>fd := 3\<rparr>) = Some (Exit (child_outcome w), st') \<and>
            last_reaped (trace st') = Some w \<and> terminal w) \<and>
   map_option fst (daemon (start_env\<lparr>runs := [run_of [quiet, child_ends 100 9]]\<rparr>)
                    (opts0\<lparr>pidfile := ''run.pid''\<rparr>)
                    ((fresh_state Map.empty)\<lparr>fd := 3\<rparr>)) = Some (Exit 9) \<and>
   (\<exists>w st'. daemon (start_env\<lparr>runs := [run_of [quiet, child_ends 100 9]]\<rparr>)
               (opts0\<lparr>pidfile := ''run.pid''\<rparr>)
               ((fresh_state Map.empty)\<lparr>fd := 3\<rparr>) = Some (Exit (child_outcome w), st') \<and>
            last_reaped (trace st') = Some w \<and> terminal w)"
proof -
  let ?opt = "opts0\<lparr>pidfile := ''run.pid''\<rparr>"
  let ?st = "(fresh_state Map.empty)\<lparr>fd := 3\<rparr>"
  let ?killed = "start_env\<lparr>runs := [run_of [quiet, child_ends 100 9]]\<rparr>"
  have "\<exists>st1 st2 stat st3.
          detach start_env ?st = Inr st1 \<and>
          writePid (os_late start_env) (pidfile ?opt) st1 = Inr st2 \<and>
          supervise (restart ?opt) (operands start_env) (runs start_env) st2 =
            Some (Inr (stat, st3))"
    by (simp add: eval_main eval_pid eval_loop)
  then obtain st1 st2 stat st3 where
    1: "detach start_env ?st = Inr st1" and
    2: "writePid (os_late start_env) (pidfile ?opt) st1 = Inr st2" and
    3: "supervise (restart ?opt) (operands start_env) (runs start_env) st2 =
          Some (Inr (stat, st3))"
    by blast
  have 4: "map_option fst (daemon start_env ?opt ?st) = Some (Exit 1)"
    by (simp add: eval_main eval_pid eval_loop)
  have "\<exists>st1 st2 stat st3.
          detach ?killed ?st = Inr st1 \<and>
          writePid (os_late ?killed) (pidfile ?opt) st1 = Inr st2 \<and>
          supervise (restart ?opt) (operands ?killed) (runs ?killed) st2 =
            Some (Inr (stat, st3))"
    by (simp add: eval_main eval_pid eval_loop)
  then obtain sa sb sc sd where
    5: "detach ?killed ?st = Inr sa" and
    6: "writePid (os_late ?killed) (pidfile ?opt) sa = Inr sb" and
    7: "supervise (restart ?opt) (operands ?killed) (runs ?killed) sb = Some (Inr (sc, sd))"
    by blast
  have 8: "map_option fst (daemon ?killed ?opt ?st) = Some (Exit 9)"
    by (simp add: eval_main eval_pid eval_loop)
  from supervisor_exit_status[OF 1 2 3] supervisor_exit_status[OF 5 6 7] 4 8
  show ?thesis by blast
qed

text \<open>
  C7. When \<^verbatim>\<open>waitpid\<close> returns the child with a status that reports a death by signal, the
  supervisor adds to its log exactly this: if the signal differs from \<^verbatim>\<open>lastsig\<close>, the
  warning \<open>child died from signal\<close> and then, if the status has the core flag, the
  information \<open>dumped core\<close>; if the signal equals \<^verbatim>\<open>lastsig\<close>, nothing. In both cases the
  child is marked as gone.
\<close>

theorem signal_death_logging:
  assumes "0 < child ls" and "w_cpid e = child ls" and "WIFSIGNALED (w_stat e)"
  shows "\<exists>st'. reap e ls st = Inr (ls\<lparr>wstat := w_stat e, child := 0\<rparr>, st') \<and>
          trace st' =
            (if WTERMSIG (w_stat e) \<noteq> lastsig (sg (deliver (sig_reap e) st))
             then (if WCOREDUMP (w_stat e) then [Log Info (ChildDumpedCore (child ls))] else []) @
                  [Log Warning (ChildDiedFromSignal (WTERMSIG (w_stat e)))]
             else []) @
            Waitpid (child ls) (child ls) (w_stat e) # trace st"
  using assms signaled_not_exited[of "w_stat e"] signaled_not_stopped[of "w_stat e"]
  by (simp add: reap_def signaled_def Let_def deliver_def emit_def)

theorem signal_death_logging_witness:
  "trace (snd (projr (reap (child_ends 100 139)
                        \<lparr>child = 100, outeof = False, erreof = False, wstat = 0\<rparr>
                        (fresh_state Map.empty)))) =
     [Log Info (ChildDumpedCore 100), Log Warning (ChildDiedFromSignal 11), Waitpid 100 100 139] \<and>
   trace (snd (projr (reap (child_ends 100 15)
                        \<lparr>child = 100, outeof = False, erreof = False, wstat = 0\<rparr>
                        (deliver [15] (fresh_state Map.empty))))) =
     [Waitpid 100 100 15]"
proof -
  let ?ls = "\<lparr>child = 100, outeof = False, erreof = False, wstat = 0\<rparr>"
  have a: "0 < child ?ls" by simp
  have b: "w_cpid (child_ends 100 139) = child ?ls" "w_cpid (child_ends 100 15) = child ?ls"
    by (simp_all add: child_ends_def quiet_def)
  have c: "WIFSIGNALED (w_stat (child_ends 100 139))" "WIFSIGNALED (w_stat (child_ends 100 15))"
    by (simp_all add: child_ends_def quiet_def WIFSIGNALED_def schar_def)
  have v: "WTERMSIG 139 = 11" "WCOREDUMP 139" "WTERMSIG 15 = 15"
    "sig_reap (child_ends 100 139) = []" "sig_reap (child_ends 100 15) = []"
    "w_stat (child_ends 100 139) = 139" "w_stat (child_ends 100 15) = 15"
    by (simp_all add: child_ends_def quiet_def WTERMSIG_def WCOREDUMP_def)
  have l: "lastsig (sg (deliver [] (fresh_state Map.empty))) = 0"
    "lastsig (sg (deliver [] (deliver [15] (fresh_state Map.empty)))) = 15"
    "trace (fresh_state Map.empty) = []" "trace (deliver [15] (fresh_state Map.empty)) = []"
    by (simp_all add: deliver_def fresh_state_def termsig_def)
  from signal_death_logging[OF a b(1) c(1), of "fresh_state Map.empty"] obtain s1 where
    s1: "reap (child_ends 100 139) ?ls (fresh_state Map.empty) =
           Inr (?ls\<lparr>wstat := w_stat (child_ends 100 139), child := 0\<rparr>, s1)"
        "trace s1 = [Log Info (ChildDumpedCore 100), Log Warning (ChildDiedFromSignal 11),
                     Waitpid 100 100 139]"
    by (simp add: v l) blast
  from signal_death_logging[OF a b(2) c(2), of "deliver [15] (fresh_state Map.empty)"]
  obtain s2 where
    s2: "reap (child_ends 100 15) ?ls (deliver [15] (fresh_state Map.empty)) =
           Inr (?ls\<lparr>wstat := w_stat (child_ends 100 15), child := 0\<rparr>, s2)"
        "trace s2 = [Waitpid 100 100 15]"
    by (simp add: v l) blast
  show ?thesis by (simp add: s1 s2)
qed












end
